theory Spec2Isabelle
  imports Complex_Main "HOL-Library.Sublist"
begin

section \<open>The query builder\<close>

subsection \<open>Strings and values interpolated into the SQL text\<close>

text \<open>
  Python strings are modelled as \<^typ>\<open>string\<close>. The single quote that delimits an SQL
  string literal is written \<open>apostrophe\<close>.
\<close>

definition apostrophe :: char where
  "apostrophe = CHR 0x27"

text \<open>\<^verbatim>\<open>sep.join(xs)\<close> of Python.\<close>

fun join :: "string \<Rightarrow> string list \<Rightarrow> string" where
  "join sep [] = []"
| "join sep [x] = x"
| "join sep (x # y # ys) = x @ sep @ join sep (y # ys)"

text \<open>
  The date widgets return a \<^verbatim>\<open>datetime.date\<close> or \<^verbatim>\<open>None\<close>. An f-string renders a
  date with \<^verbatim>\<open>str\<close>, which is the ISO form \<^verbatim>\<open>%04d-%02d-%02d\<close>; the years of a
  \<^verbatim>\<open>datetime.date\<close> range over 1..9999, so four digits always suffice.
\<close>

record date =
  year :: nat
  month :: nat
  day :: nat

definition digit :: "nat \<Rightarrow> char" where
  "digit n = ''0123456789'' ! (n mod 10)"

definition date_str :: "date \<Rightarrow> string" where
  "date_str d =
     [digit (year d div 1000), digit (year d div 100), digit (year d div 10), digit (year d),
      CHR ''-'', digit (month d div 10), digit (month d),
      CHR ''-'', digit (day d div 10), digit (day d)]"

subsection \<open>The filter state\<close>

text \<open>
  The module-level variables read by \<^verbatim>\<open>build_where_clause\<close>. The three multiselect widgets
  return lists of strings, the two checkboxes booleans, the date inputs a date or \<^verbatim>\<open>None\<close>,
  the number inputs floats. The floats are modelled as reals (the widgets have
  \<^verbatim>\<open>min_value=0.0\<close>, so neither NaN nor a negative zero reaches the function); the text an
  f-string produces for a float is Python's \<^verbatim>\<open>repr\<close>, which is taken as the parameter
  \<open>float_str\<close> of the builder.
\<close>

record filters =
  filtro_categoria :: "string list"
  filtro_modalidade :: "string list"
  filtro_estado :: "string list"
  use_date_filter :: bool
  filtro_data_inicio :: "date option"
  filtro_data_fim :: "date option"
  use_value_filter :: bool
  filtro_valor_min :: real
  filtro_valor_max :: real

subsection \<open>\<^verbatim>\<open>build_where_clause\<close>\<close>

text \<open>
  The local list \<^verbatim>\<open>conditions\<close> as it stands before the \<^verbatim>\<open>return\<close>: every \<^verbatim>\<open>if\<close> of the
  source is one rebinding of the list, in the source's order. A non-empty list and a date
  object are truthy, an empty list and \<^verbatim>\<open>None\<close> are falsy.
\<close>

definition build_conditions :: "(real \<Rightarrow> string) \<Rightarrow> filters \<Rightarrow> string list" where
  "build_conditions float_str f =
    (let conditions = [];
         conditions =
           (if filtro_categoria f \<noteq> [] then
              (let cats = join [apostrophe, CHR '','', CHR '' '', apostrophe] (filtro_categoria f)
               in conditions @ [''c.categoria IN ('' @ [apostrophe] @ cats @ [apostrophe] @ '')''])
            else conditions);
         conditions =
           (if filtro_modalidade f \<noteq> [] then
              (let mods = join [apostrophe, CHR '','', CHR '' '', apostrophe] (filtro_modalidade f)
               in conditions @ [''m.modalidade IN ('' @ [apostrophe] @ mods @ [apostrophe] @ '')''])
            else conditions);
         conditions =
           (if filtro_estado f \<noteq> [] then
              (let ufs = join [apostrophe, CHR '','', CHR '' '', apostrophe] (filtro_estado f)
               in conditions @ [''mu.uf IN ('' @ [apostrophe] @ ufs @ [apostrophe] @ '')''])
            else conditions);
         conditions =
           (if use_date_filter f then
              (let conditions =
                     (case filtro_data_inicio f of
                        Some d \<Rightarrow> conditions @
                          [''p.data_pagamento >= '' @ [apostrophe] @ date_str d @ [apostrophe]]
                      | None \<Rightarrow> conditions)
               in (case filtro_data_fim f of
                     Some d \<Rightarrow> conditions @
                       [''p.data_pagamento <= '' @ [apostrophe] @ date_str d @ [apostrophe]]
                   | None \<Rightarrow> conditions))
            else conditions);
         conditions =
           (if use_value_filter f then
              (let conditions =
                     (if filtro_valor_min f > 0 then
                        conditions @ [''p.valor_pago >= '' @ float_str (filtro_valor_min f)]
                      else conditions)
               in (if filtro_valor_max f > 0 then
                     conditions @ [''p.valor_pago <= '' @ float_str (filtro_valor_max f)]
                   else conditions))
            else conditions)
     in conditions)"

text \<open>The \<^verbatim>\<open>return\<close>: the conditions joined by \<^verbatim>\<open>" AND "\<close>, or \<^verbatim>\<open>None\<close> for the empty list.\<close>

definition build_where_clause :: "(real \<Rightarrow> string) \<Rightarrow> filters \<Rightarrow> string option" where
  "build_where_clause float_str f =
    (let conditions = build_conditions float_str f
     in if conditions \<noteq> [] then Some (join '' AND '' conditions) else None)"

section \<open>The connection guardian\<close>

subsection \<open>The world outside the module\<close>

text \<open>
  The functions \<^verbatim>\<open>get_valid_connection\<close> and \<^verbatim>\<open>fetch_query\<close> talk to SQLite, to the file
  system, to pandas and to Streamlit. Each such call is an element of \<open>call\<close>; the
  session keeps the list of the calls made so far, oldest first. What a call answers is
  not decided by the module: it is given by an environment, which may answer differently
  at every point of the history (a handle that answered the probe may fail on the next
  statement). A property proved for every environment holds however the outside behaves.
\<close>

type_synonym handle = nat

type_synonym table = "string list \<times> string list list"

text \<open>
  The exception classes the two \<^verbatim>\<open>except\<close> clauses name, and every other exception,
  kept by its class name.
\<close>

datatype exn = ProgrammingError | OperationalError | InterfaceError | OtherError string

text \<open>
  How a call of the module ends when it does not return: an exception propagates, or
  \<^verbatim>\<open>st.stop()\<close> ends the script run after \<^verbatim>\<open>st.error\<close> has shown its message.
\<close>

datatype failure = Raised exn | Stopped string

datatype call =
    Execute handle string
  | Close handle
  | PathExists
  | Connect
  | ReadSql handle string
  | StError string
  | StStop

record env =
  execute_result :: "call list \<Rightarrow> handle \<Rightarrow> string \<Rightarrow> exn option"
  close_result :: "call list \<Rightarrow> handle \<Rightarrow> exn option"
  path_exists :: "call list \<Rightarrow> bool"
  connect_result :: "call list \<Rightarrow> exn + handle"
  read_sql_result :: "call list \<Rightarrow> handle \<Rightarrow> string \<Rightarrow> exn + table"

text \<open>The global \<^verbatim>\<open>_conn_cache\<close> and the history of calls.\<close>

record session =
  conn_cache :: "handle option"
  trace :: "call list"

definition called :: "call \<Rightarrow> session \<Rightarrow> session" where
  "called c s = s\<lparr>trace := trace s @ [c]\<rparr>"

text \<open>
  The tuple \<^verbatim>\<open>(sqlite3.ProgrammingError, sqlite3.OperationalError, sqlite3.InterfaceError)\<close>
  of both handlers.
\<close>

definition connection_lost :: "exn \<Rightarrow> bool" where
  "connection_lost e = (e = ProgrammingError \<or> e = OperationalError \<or> e = InterfaceError)"

text \<open>The f-string of \<^verbatim>\<open>st.error\<close>, in UTF-8, with the path \<^verbatim>\<open>bolsa_atleta.db\<close>.\<close>

definition not_found_message :: string where
  "not_found_message =
     ''Banco de dados n'' @ [CHR 0xC3, CHR 0xA3] @ ''o encontrado: bolsa_atleta.db''"

subsection \<open>\<^verbatim>\<open>get_valid_connection\<close>\<close>

text \<open>
  \<^verbatim>\<open>try: _conn_cache.close()\<close> under a bare \<^verbatim>\<open>except: pass\<close>: the call is made and
  whatever it raises is dropped.
\<close>

definition close_quietly :: "env \<Rightarrow> handle \<Rightarrow> session \<Rightarrow> session" where
  "close_quietly E c s =
     (case close_result E (trace s) c of
        None \<Rightarrow> called (Close c) s
      | Some e \<Rightarrow> called (Close c) s)"

text \<open>
  The second half of \<^verbatim>\<open>get_valid_connection\<close>, from \<^verbatim>\<open>db_path = Path(...)\<close> on: the
  existence test, \<^verbatim>\<open>st.error\<close> and \<^verbatim>\<open>st.stop\<close> when the file is absent, otherwise
  \<^verbatim>\<open>sqlite3.connect\<close>, the assignment to the cache, and the busy-timeout pragma. The cache
  is assigned before the pragma runs, so a failing pragma leaves the new handle cached.
\<close>

definition new_connection :: "env \<Rightarrow> session \<Rightarrow> (failure + handle) \<times> session" where
  "new_connection E s =
     (let found = path_exists E (trace s); s = called PathExists s in
      if \<not> found then
        (Inl (Stopped not_found_message), called StStop (called (StError not_found_message) s))
      else
        (case connect_result E (trace s) of
           Inl e \<Rightarrow> (Inl (Raised e), called Connect s)
         | Inr h \<Rightarrow>
            (let s = (called Connect s)\<lparr>conn_cache := Some h\<rparr> in
             case execute_result E (trace s) h ''PRAGMA busy_timeout = 30000'' of
               Some e \<Rightarrow> (Inl (Raised e), called (Execute h ''PRAGMA busy_timeout = 30000'') s)
             | None \<Rightarrow> (Inr h, called (Execute h ''PRAGMA busy_timeout = 30000'') s))))"

definition get_valid_connection :: "env \<Rightarrow> session \<Rightarrow> (failure + handle) \<times> session" where
  "get_valid_connection E s =
     (case conn_cache s of
        None \<Rightarrow> new_connection E s
      | Some c \<Rightarrow>
         (case execute_result E (trace s) c ''SELECT 1'' of
            None \<Rightarrow> (Inr c, called (Execute c ''SELECT 1'') s)
          | Some e \<Rightarrow>
             (let s = called (Execute c ''SELECT 1'') s in
              if connection_lost e then
                new_connection E ((close_quietly E c s)\<lparr>conn_cache := None\<rparr>)
              else (Inl (Raised e), s))))"

subsection \<open>\<^verbatim>\<open>fetch_query\<close>\<close>

text \<open>\<^verbatim>\<open>pd.read_sql_query(query, valid_conn)\<close>: a table, or an exception.\<close>

definition read_sql_query ::
    "env \<Rightarrow> string \<Rightarrow> handle \<Rightarrow> session \<Rightarrow> (exn + table) \<times> session" where
  "read_sql_query E query h s =
     (read_sql_result E (trace s) h query, called (ReadSql h query) s)"

text \<open>
  The parameter \<open>conn\<close> (default \<^verbatim>\<open>None\<close>) is in the signature and nowhere in the body.
  The first \<^verbatim>\<open>get_valid_connection()\<close> stands before the \<^verbatim>\<open>try\<close>, the second inside
  the handler: what either raises propagates.
\<close>

definition fetch_query ::
    "env \<Rightarrow> string \<Rightarrow> handle option \<Rightarrow> session \<Rightarrow> (failure + table) \<times> session" where
  "fetch_query E query conn s =
     (case get_valid_connection E s of
        (Inl f, s) \<Rightarrow> (Inl f, s)
      | (Inr valid_conn, s) \<Rightarrow>
         (case read_sql_query E query valid_conn s of
            (Inr df, s) \<Rightarrow> (Inr df, s)
          | (Inl e, s) \<Rightarrow>
             if connection_lost e then
               (let s = (case conn_cache s of
                           None \<Rightarrow> s
                         | Some c \<Rightarrow> close_quietly E c s);
                    s = s\<lparr>conn_cache := None\<rparr>
                in case get_valid_connection E s of
                     (Inl f, s) \<Rightarrow> (Inl f, s)
                   | (Inr valid_conn, s) \<Rightarrow>
                      (case read_sql_query E query valid_conn s of
                         (Inr df, s) \<Rightarrow> (Inr df, s)
                       | (Inl e, s) \<Rightarrow> (Inl (Raised e), s)))
             else (Inl (Raised e), s)))"

section \<open>Notions used to state the properties\<close>

subsection \<open>The conditions of the specification, as data\<close>

text \<open>
  Section 4.2 of the specification lists what each enabled field contributes: a membership
  test of a column in a set of names, a lower and an upper bound on the payment date, a
  lower and an upper bound on the amount paid. An \<open>atom\<close> is one such condition, as data
  and not as text. The operand of a bound is the content of a string literal (a date in
  the form \<^verbatim>\<open>str\<close> gives it) or a number as it is written (what \<open>float_str\<close> gives).
\<close>

datatype operand = Lit string | Num string

datatype atom = In string "string list" | Ge string operand | Le string operand

text \<open>
  The table of the specification: a list contributes when it is not empty; the date range
  when its toggle is on, each bound only when it is set; the value range when its toggle
  is on, each bound only when it is greater than 0.
\<close>

definition set_atoms :: "filters \<Rightarrow> atom list" where
  "set_atoms f =
     (if filtro_categoria f = [] then [] else [In ''c.categoria'' (filtro_categoria f)]) @
     (if filtro_modalidade f = [] then [] else [In ''m.modalidade'' (filtro_modalidade f)]) @
     (if filtro_estado f = [] then [] else [In ''mu.uf'' (filtro_estado f)])"

definition date_atoms :: "filters \<Rightarrow> atom list" where
  "date_atoms f =
     (if use_date_filter f then
        (case filtro_data_inicio f of
           None \<Rightarrow> [] | Some d \<Rightarrow> [Ge ''p.data_pagamento'' (Lit (date_str d))]) @
        (case filtro_data_fim f of
           None \<Rightarrow> [] | Some d \<Rightarrow> [Le ''p.data_pagamento'' (Lit (date_str d))])
      else [])"

definition value_atoms :: "(real \<Rightarrow> string) \<Rightarrow> filters \<Rightarrow> atom list" where
  "value_atoms float_str f =
     (if use_value_filter f then
        (if filtro_valor_min f > 0
         then [Ge ''p.valor_pago'' (Num (float_str (filtro_valor_min f)))] else []) @
        (if filtro_valor_max f > 0
         then [Le ''p.valor_pago'' (Num (float_str (filtro_valor_max f)))] else [])
      else [])"

definition expected_atoms :: "(real \<Rightarrow> string) \<Rightarrow> filters \<Rightarrow> atom list" where
  "expected_atoms float_str f = set_atoms f @ date_atoms f @ value_atoms float_str f"

text \<open>
  A row gives each column its value, or \<open>None\<close> for SQL's \<^verbatim>\<open>NULL\<close>. A membership test holds
  of a row when the column has a value and the value is one of the names, compared as
  they are (the binary collation, SQLite's default). How the database compares a date or
  an amount with a bound is not modelled: it is the parameter \<open>cmp\<close>, and what is proved
  holds for every such comparison. A conjunction holds when all its atoms do.
\<close>

type_synonym row = "string \<Rightarrow> string option"

definition member_of :: "row \<Rightarrow> string \<Rightarrow> string list \<Rightarrow> bool" where
  "member_of r c xs = (case r c of None \<Rightarrow> False | Some v \<Rightarrow> v \<in> set xs)"

fun holds :: "(row \<Rightarrow> atom \<Rightarrow> bool) \<Rightarrow> row \<Rightarrow> atom \<Rightarrow> bool" where
  "holds cmp r (In c xs) = member_of r c xs"
| "holds cmp r (Ge c x) = cmp r (Ge c x)"
| "holds cmp r (Le c x) = cmp r (Le c x)"

subsection \<open>The fixed order of the conditions\<close>

text \<open>
  The seven places, numbered from 0: categories, modalities, states, date lower bound,
  date upper bound, value lower bound, value upper bound. \<open>condition_rank\<close> reads the
  place of a condition off its text, which starts with the column and, for a bound, the
  comparison; \<open>place_enabled\<close> says from the filter state which places are enabled.
\<close>

definition condition_rank :: "string \<Rightarrow> nat" where
  "condition_rank c =
     (if prefix ''c.categoria'' c then 0
      else if prefix ''m.modalidade'' c then 1
      else if prefix ''mu.uf'' c then 2
      else if prefix ''p.data_pagamento >='' c then 3
      else if prefix ''p.data_pagamento <='' c then 4
      else if prefix ''p.valor_pago >='' c then 5
      else if prefix ''p.valor_pago <='' c then 6
      else 7)"

definition place_enabled :: "filters \<Rightarrow> nat \<Rightarrow> bool" where
  "place_enabled f k =
     (if k = 0 then filtro_categoria f \<noteq> []
      else if k = 1 then filtro_modalidade f \<noteq> []
      else if k = 2 then filtro_estado f \<noteq> []
      else if k = 3 then use_date_filter f \<and> filtro_data_inicio f \<noteq> None
      else if k = 4 then use_date_filter f \<and> filtro_data_fim f \<noteq> None
      else if k = 5 then use_value_filter f \<and> filtro_valor_min f > 0
      else if k = 6 then use_value_filter f \<and> filtro_valor_max f > 0
      else False)"

subsection \<open>How the database reads a predicate\<close>

text \<open>
  The module hands the predicate to SQLite as text, so what the predicate means is decided
  by how that text is read. The reading below is not code of the repository: it is the
  part of SQL's syntax that the predicates of the builder are written in, and it is
  partial on purpose. It answers \<open>Some\<close> atoms only for a text that is, token by token, a
  chain of conditions joined by \<^verbatim>\<open>AND\<close>, each of them one of

    \<^item> a column of the five the builder names, \<^verbatim>\<open>IN\<close>, and a parenthesised list of string
      literals separated by commas;
    \<^item> such a column, \<^verbatim>\<open>>=\<close> or \<^verbatim>\<open><=\<close>, and one string literal or one numeric literal.

  For every other text it answers \<open>None\<close>, which says nothing about that text: the
  database may accept it with another meaning or refuse it.

  \<open>lex\<close> cuts the text into tokens. A string literal starts and ends with an apostrophe,
  and two apostrophes in a row inside it stand for one apostrophe. A NUL character is
  refused: \<^verbatim>\<open>sqlite3\<close> does not execute a statement that contains one. Outside literals
  only blanks, parentheses, commas and words are accepted, and a word ends at a blank or
  at the end of the text.
\<close>

definition nul :: char where
  "nul = CHR 0x00"

datatype token = Word string | StrLit string | LParen | RParen | Comma

datatype lex_state = Idle | InWord string | InLit string | QuoteSeen string

definition word_char :: "char \<Rightarrow> bool" where
  "word_char c =
     (c \<in> set ''abcdefghijklmnopqrstuvwxyzABCDEFGHIJKLMNOPQRSTUVWXYZ0123456789_.+-<>='')"

fun lex :: "lex_state \<Rightarrow> token list \<Rightarrow> string \<Rightarrow> token list option" where
  "lex Idle acc [] = Some acc"
| "lex (InWord w) acc [] = Some (acc @ [Word w])"
| "lex (InLit s) acc [] = None"
| "lex (QuoteSeen s) acc [] = Some (acc @ [StrLit s])"
| "lex Idle acc (c # cs) =
     (if c = CHR '' '' then lex Idle acc cs
      else if c = apostrophe then lex (InLit []) acc cs
      else if c = CHR ''('' then lex Idle (acc @ [LParen]) cs
      else if c = CHR '')'' then lex Idle (acc @ [RParen]) cs
      else if c = CHR '','' then lex Idle (acc @ [Comma]) cs
      else if word_char c then lex (InWord [c]) acc cs
      else None)"
| "lex (InWord w) acc (c # cs) =
     (if word_char c then lex (InWord (w @ [c])) acc cs
      else if c = CHR '' '' then lex Idle (acc @ [Word w]) cs
      else None)"
| "lex (InLit s) acc (c # cs) =
     (if c = apostrophe then lex (QuoteSeen s) acc cs
      else if c = nul then None
      else lex (InLit (s @ [c])) acc cs)"
| "lex (QuoteSeen s) acc (c # cs) =
     (if c = apostrophe then lex (InLit (s @ [apostrophe])) acc cs
      else if c = CHR '' '' then lex Idle (acc @ [StrLit s]) cs
      else if c = CHR '','' then lex Idle (acc @ [StrLit s, Comma]) cs
      else if c = CHR '')'' then lex Idle (acc @ [StrLit s, RParen]) cs
      else None)"

text \<open>
  A numeric literal of SQL: digits, then optionally a point and digits, then optionally an
  exponent (\<^verbatim>\<open>e\<close> or \<^verbatim>\<open>E\<close>, an optional sign, digits). Python writes every finite float
  in this form (\<^verbatim>\<open>500.0\<close>, \<^verbatim>\<open>1e+16\<close>, \<^verbatim>\<open>1.5e-07\<close>).
\<close>

definition is_digit :: "char \<Rightarrow> bool" where
  "is_digit c = (c \<in> set ''0123456789'')"

datatype num_state = NStart | NInt | NFrac | NExp | NSign | NExpDigits

fun number_scan :: "num_state \<Rightarrow> string \<Rightarrow> bool" where
  "number_scan st [] = (st = NInt \<or> st = NFrac \<or> st = NExpDigits)"
| "number_scan NStart (c # cs) = (is_digit c \<and> number_scan NInt cs)"
| "number_scan NInt (c # cs) =
     (if is_digit c then number_scan NInt cs
      else if c = CHR ''.'' then number_scan NFrac cs
      else if c = CHR ''e'' \<or> c = CHR ''E'' then number_scan NExp cs
      else False)"
| "number_scan NFrac (c # cs) =
     (if is_digit c then number_scan NFrac cs
      else if c = CHR ''e'' \<or> c = CHR ''E'' then number_scan NExp cs
      else False)"
| "number_scan NExp (c # cs) =
     (if is_digit c then number_scan NExpDigits cs
      else if c = CHR ''+'' \<or> c = CHR ''-'' then number_scan NSign cs
      else False)"
| "number_scan NSign (c # cs) = (is_digit c \<and> number_scan NExpDigits cs)"
| "number_scan NExpDigits (c # cs) = (is_digit c \<and> number_scan NExpDigits cs)"

definition number_literal :: "string \<Rightarrow> bool" where
  "number_literal t = number_scan NStart t"

definition known_column :: "string \<Rightarrow> bool" where
  "known_column c =
     (c \<in> set [''c.categoria'', ''m.modalidade'', ''mu.uf'', ''p.data_pagamento'', ''p.valor_pago''])"

text \<open>
  \<open>parse\<close> reads the tokens as a chain of conditions. The state says what is expected
  next; anything else ends the reading with \<open>None\<close>.
\<close>

datatype parse_state =
    Start
  | Col string
  | Open string
  | Elem string "string list"
  | Sep string "string list"
  | Bound bool string
  | Done

fun parse :: "parse_state \<Rightarrow> atom list \<Rightarrow> token list \<Rightarrow> atom list option" where
  "parse Done acc [] = Some acc"
| "parse Start acc (Word w # ts) = (if known_column w then parse (Col w) acc ts else None)"
| "parse (Col c) acc (Word w # ts) =
     (if w = ''IN'' then parse (Open c) acc ts
      else if w = ''>='' then parse (Bound True c) acc ts
      else if w = ''<='' then parse (Bound False c) acc ts
      else None)"
| "parse (Open c) acc (LParen # ts) = parse (Elem c []) acc ts"
| "parse (Elem c xs) acc (StrLit s # ts) = parse (Sep c (xs @ [s])) acc ts"
| "parse (Sep c xs) acc (Comma # ts) = parse (Elem c xs) acc ts"
| "parse (Sep c xs) acc (RParen # ts) = parse Done (acc @ [In c xs]) ts"
| "parse (Bound ge c) acc (StrLit s # ts) =
     parse Done (acc @ [if ge then Ge c (Lit s) else Le c (Lit s)]) ts"
| "parse (Bound ge c) acc (Word w # ts) =
     (if number_literal w
      then parse Done (acc @ [if ge then Ge c (Num w) else Le c (Num w)]) ts
      else None)"
| "parse Done acc (Word w # ts) = (if w = ''AND'' then parse Start acc ts else None)"
| "parse st acc ts = None"

definition read_predicate :: "string \<Rightarrow> atom list option" where
  "read_predicate p = (case lex Idle [] p of None \<Rightarrow> None | Some ts \<Rightarrow> parse Start [] ts)"

text \<open>
  Whether a row is matched by a predicate text: \<open>Some\<close> of the truth of the conjunction
  when the text is read, \<open>None\<close> when it is not. \<open>matched\<close> is the same for the predicate
  that \<open>build_where_clause\<close> returns for a filter state; with no predicate the views run
  their queries without a \<^verbatim>\<open>WHERE\<close> clause, and every row is matched.
\<close>

definition predicate_matches :: "(row \<Rightarrow> atom \<Rightarrow> bool) \<Rightarrow> string \<Rightarrow> row \<Rightarrow> bool option" where
  "predicate_matches cmp p r = map_option (list_all (holds cmp r)) (read_predicate p)"

definition matched ::
    "(row \<Rightarrow> atom \<Rightarrow> bool) \<Rightarrow> (real \<Rightarrow> string) \<Rightarrow> filters \<Rightarrow> row \<Rightarrow> bool option" where
  "matched cmp float_str f r =
     (case build_where_clause float_str f of
        None \<Rightarrow> Some True
      | Some p \<Rightarrow> predicate_matches cmp p r)"

text \<open>The names that hold neither an apostrophe nor a NUL character.\<close>

definition plain :: "string \<Rightarrow> bool" where
  "plain x = (apostrophe \<notin> set x \<and> nul \<notin> set x)"

definition plain_names :: "string list \<Rightarrow> bool" where
  "plain_names xs = list_all plain xs"

subsection \<open>Concrete filter states and environments\<close>

text \<open>
  The state of the sidebar before any interaction: the defaults of the widgets
  (\<^verbatim>\<open>default=[]\<close>, \<^verbatim>\<open>value=False\<close>) and the \<^verbatim>\<open>else\<close> branches of the two toggles.
\<close>

definition no_filters :: filters where
  "no_filters =
     \<lparr>filtro_categoria = [], filtro_modalidade = [], filtro_estado = [],
      use_date_filter = False, filtro_data_inicio = None, filtro_data_fim = None,
      use_value_filter = False, filtro_valor_min = 0, filtro_valor_max = 0\<rparr>"

text \<open>
  An environment with two handles: handle 0 is the one in the cache, handle 1 is the one
  \<^verbatim>\<open>sqlite3.connect\<close> returns. \<open>found\<close> says whether the database file exists;
  \<open>probe_error\<close>, \<open>close_error\<close> and \<open>read_error\<close> are what \<^verbatim>\<open>execute\<close>, \<^verbatim>\<open>close\<close> and
  \<^verbatim>\<open>read_sql_query\<close> raise on handle 0, if anything. Handle 1 always works.
\<close>

definition sample_table :: table where
  "sample_table = ([''total''], [[''42'']])"

definition scenario :: "bool \<Rightarrow> exn option \<Rightarrow> exn option \<Rightarrow> exn option \<Rightarrow> env" where
  "scenario found probe_error close_error read_error =
     \<lparr>execute_result = (\<lambda>t h sql. if h = 0 then probe_error else None),
      close_result = (\<lambda>t h. close_error),
      path_exists = (\<lambda>t. found),
      connect_result = (\<lambda>t. Inr 1),
      read_sql_result = (\<lambda>t h sql.
        if h = 0 then (case read_error of Some e \<Rightarrow> Inl e | None \<Rightarrow> Inr sample_table)
        else Inr sample_table)\<rparr>"

subsection \<open>The text the builder writes for a condition\<close>

text \<open>
  Used in the proofs only. \<open>emitted_text\<close> is the text that \<open>build_where_clause\<close> writes
  for an atom: the value goes between apostrophes as it is, nothing is escaped. So this
  text does not mean the atom in general; \<open>well_formed\<close> marks the atoms for which it is
  shown below to be read back as the atom. \<open>atom_tokens\<close> and \<open>atoms_tokens\<close> are the
  tokens of one atom and of a chain.
\<close>

fun emitted_text :: "atom \<Rightarrow> string" where
  "emitted_text (In c xs) =
     c @ '' IN ('' @ [apostrophe] @
       join [apostrophe, CHR '','', CHR '' '', apostrophe] xs @ [apostrophe] @ '')''"
| "emitted_text (Ge c (Lit s)) = c @ '' >= '' @ [apostrophe] @ s @ [apostrophe]"
| "emitted_text (Le c (Lit s)) = c @ '' <= '' @ [apostrophe] @ s @ [apostrophe]"
| "emitted_text (Ge c (Num t)) = c @ '' >= '' @ t"
| "emitted_text (Le c (Num t)) = c @ '' <= '' @ t"

fun well_formed :: "atom \<Rightarrow> bool" where
  "well_formed (In c xs) = (known_column c \<and> xs \<noteq> [] \<and> plain_names xs)"
| "well_formed (Ge c (Lit s)) = (known_column c \<and> plain s)"
| "well_formed (Le c (Lit s)) = (known_column c \<and> plain s)"
| "well_formed (Ge c (Num t)) = (known_column c \<and> number_literal t)"
| "well_formed (Le c (Num t)) = (known_column c \<and> number_literal t)"

fun lit_tokens :: "string list \<Rightarrow> token list" where
  "lit_tokens [] = []"
| "lit_tokens [x] = [StrLit x]"
| "lit_tokens (x # y # ys) = StrLit x # Comma # lit_tokens (y # ys)"

fun atom_tokens :: "atom \<Rightarrow> token list" where
  "atom_tokens (In c xs) = [Word c, Word ''IN'', LParen] @ lit_tokens xs @ [RParen]"
| "atom_tokens (Ge c (Lit s)) = [Word c, Word ''>='', StrLit s]"
| "atom_tokens (Le c (Lit s)) = [Word c, Word ''<='', StrLit s]"
| "atom_tokens (Ge c (Num t)) = [Word c, Word ''>='', Word t]"
| "atom_tokens (Le c (Num t)) = [Word c, Word ''<='', Word t]"

fun atoms_tokens :: "atom list \<Rightarrow> token list" where
  "atoms_tokens [] = []"
| "atoms_tokens [a] = atom_tokens a"
| "atoms_tokens (a # b # bs) = atom_tokens a @ Word ''AND'' # atoms_tokens (b # bs)"

section \<open>Auxiliary facts\<close>

subsection \<open>What the builder writes\<close>

lemma build_conditions_text:
  "build_conditions fs f = map emitted_text (expected_atoms fs f)"
  by (simp add: build_conditions_def expected_atoms_def set_atoms_def date_atoms_def value_atoms_def Let_def split: option.split)

lemma on_data:
  "filter (prefix ''p.data_pagamento'') (build_conditions fs f) = map emitted_text (date_atoms f)"
  by (simp add: build_conditions_text expected_atoms_def set_atoms_def date_atoms_def
      value_atoms_def split: option.split)

lemma on_valor:
  "filter (prefix ''p.valor_pago'') (build_conditions fs f) = map emitted_text (value_atoms fs f)"
  by (simp add: build_conditions_text expected_atoms_def set_atoms_def date_atoms_def
      value_atoms_def split: option.split)

lemma on_valor_ge:
  "filter (prefix ''p.valor_pago >='') (build_conditions fs f) =
     (if use_value_filter f \<and> filtro_valor_min f > 0
      then [''p.valor_pago >= '' @ fs (filtro_valor_min f)] else [])"
  by (simp add: build_conditions_text expected_atoms_def set_atoms_def date_atoms_def
      value_atoms_def split: option.split)

lemma on_valor_le:
  "filter (prefix ''p.valor_pago <='') (build_conditions fs f) =
     (if use_value_filter f \<and> filtro_valor_max f > 0
      then [''p.valor_pago <= '' @ fs (filtro_valor_max f)] else [])"
  by (simp add: build_conditions_text expected_atoms_def set_atoms_def date_atoms_def
      value_atoms_def split: option.split)

lemma set_part:
  "build_conditions fs (f\<lparr>use_date_filter := False, use_value_filter := False\<rparr>) =
     map emitted_text (set_atoms f)"
  by (simp add: build_conditions_text expected_atoms_def set_atoms_def date_atoms_def
      value_atoms_def)

lemma rank_set:
  "map condition_rank (map emitted_text (set_atoms f)) = filter (place_enabled f) [0, 1, 2]"
  by (simp add: set_atoms_def place_enabled_def condition_rank_def)

lemma rank_date:
  "map condition_rank (map emitted_text (date_atoms f)) = filter (place_enabled f) [3, 4]"
  by (simp add: date_atoms_def place_enabled_def condition_rank_def split: option.split)

lemma rank_value:
  "map condition_rank (map emitted_text (value_atoms fs f)) = filter (place_enabled f) [5, 6]"
  by (simp add: value_atoms_def place_enabled_def condition_rank_def)

lemma rank_places:
  "map condition_rank (build_conditions fs f) = filter (place_enabled f) [0, 1, 2, 3, 4, 5, 6]"
proof -
  have "filter (place_enabled f) [0, 1, 2, 3, 4, 5, 6] =
      filter (place_enabled f) [0, 1, 2] @ filter (place_enabled f) [3, 4] @
      filter (place_enabled f) [5, 6]"
    by simp
  then show ?thesis
    using rank_set [of f] rank_date [of f] rank_value [of fs f]
    by (simp only: build_conditions_text expected_atoms_def map_append)
qed

subsection \<open>Cutting the text of well-formed atoms into tokens\<close>

lemma not_word_char:
  "\<not> word_char (CHR '' '')" "\<not> word_char apostrophe" "\<not> word_char (CHR ''('')"
  "\<not> word_char (CHR '')'')" "\<not> word_char (CHR '','')"
  by (simp_all add: word_char_def apostrophe_def)

lemma word_char_neq:
  assumes "word_char c"
  shows "c \<noteq> CHR '' ''" "c \<noteq> apostrophe" "c \<noteq> CHR ''(''" "c \<noteq> CHR '')''" "c \<noteq> CHR '',''"
  using assms not_word_char by auto

lemma apostrophe_neq:
  "apostrophe \<noteq> CHR '' ''" "apostrophe \<noteq> CHR '',''" "apostrophe \<noteq> CHR '')''"
  "CHR '' '' \<noteq> apostrophe" "CHR '','' \<noteq> apostrophe" "CHR '')'' \<noteq> apostrophe"
  "CHR ''('' \<noteq> apostrophe"
  by (simp_all add: apostrophe_def)

lemma lex_word_space:
  "list_all word_char w \<Longrightarrow>
   lex (InWord b) acc (w @ CHR '' '' # rest) = lex Idle (acc @ [Word (b @ w)]) rest"
  by (induction w arbitrary: b) (simp_all add: not_word_char)

lemma lex_word_end:
  "list_all word_char w \<Longrightarrow> lex (InWord b) acc w = Some (acc @ [Word (b @ w)])"
  by (induction w arbitrary: b) simp_all

lemma lex_idle_word_space:
  assumes "w \<noteq> []" and "list_all word_char w"
  shows "lex Idle acc (w @ CHR '' '' # rest) = lex Idle (acc @ [Word w]) rest"
proof -
  obtain c w' where w: "w = c # w'"
    using assms(1) by (cases w) auto
  then have "word_char c" and "list_all word_char w'"
    using assms(2) by simp_all
  then show ?thesis
    using lex_word_space [of w' "[c]" acc rest] by (simp add: w word_char_neq)
qed

lemma lex_idle_word_end:
  assumes "w \<noteq> []" and "list_all word_char w"
  shows "lex Idle acc w = Some (acc @ [Word w])"
proof -
  obtain c w' where w: "w = c # w'"
    using assms(1) by (cases w) auto
  then have "word_char c" and "list_all word_char w'"
    using assms(2) by simp_all
  then show ?thesis
    using lex_word_end [of w' "[c]" acc] by (simp add: w word_char_neq)
qed

lemma lex_lit:
  "plain s \<Longrightarrow>
   lex (InLit b) acc (s @ apostrophe # rest) = lex (QuoteSeen (b @ s)) acc rest"
  by (induction s arbitrary: b) (auto simp: plain_def)

lemma lex_items:
  "plain_names (x # xs) \<Longrightarrow>
   lex (InLit []) acc
     (join [apostrophe, CHR '','', CHR '' '', apostrophe] (x # xs) @ apostrophe # CHR '')'' # rest)
     = lex Idle (acc @ lit_tokens (x # xs) @ [RParen]) rest"
proof (induction xs arbitrary: x acc)
  case Nil
  then show ?case
    by (simp add: plain_names_def lex_lit apostrophe_neq)
next
  case (Cons y ys)
  have "plain_names (y # ys)" and "plain x"
    using Cons.prems by (simp_all add: plain_names_def)
  then show ?case
    using Cons.IH [of y "acc @ [StrLit x, Comma]"]
    by (simp add: lex_lit apostrophe_neq)
qed

lemma known_column_word: "known_column c \<Longrightarrow> c \<noteq> [] \<and> list_all word_char c"
  by (auto simp: known_column_def word_char_def)

lemma is_digit_word_char: "is_digit c \<Longrightarrow> word_char c"
  by (auto simp: is_digit_def word_char_def)

lemma number_word_chars:
  "word_char (CHR ''.'')" "word_char (CHR ''e'')" "word_char (CHR ''E'')"
  "word_char (CHR ''+'')" "word_char (CHR ''-'')"
  by (simp_all add: word_char_def)

lemma number_scan_word: "number_scan st t \<Longrightarrow> list_all word_char t"
  by (induction st t rule: number_scan.induct)
    (auto simp: is_digit_word_char number_word_chars split: if_splits)

lemma number_literal_word: "number_literal t \<Longrightarrow> t \<noteq> [] \<and> list_all word_char t"
  by (auto simp: number_literal_def number_scan_word)

lemma keyword_word:
  "word_char (CHR ''I'')" "word_char (CHR ''N'')" "word_char (CHR ''A'')" "word_char (CHR ''D'')"
  "word_char (CHR ''>'')" "word_char (CHR ''<'')" "word_char (CHR ''='')"
  by (simp_all add: word_char_def)

lemma lex_head_gen:
  assumes "known_column c" and "op \<noteq> []" and "list_all word_char op"
  shows "lex Idle acc (c @ CHR '' '' # op @ CHR '' '' # rest) = lex Idle (acc @ [Word c, Word op]) rest"
  using assms known_column_word [of c]
  by (simp add: lex_idle_word_space)

lemma lex_head:
  assumes "known_column c"
  shows "lex Idle acc (c @ CHR '' '' # CHR ''I'' # CHR ''N'' # CHR '' '' # rest) =
      lex Idle (acc @ [Word c, Word ''IN'']) rest"
    and "lex Idle acc (c @ CHR '' '' # CHR ''>'' # CHR ''='' # CHR '' '' # rest) =
      lex Idle (acc @ [Word c, Word ''>='']) rest"
    and "lex Idle acc (c @ CHR '' '' # CHR ''<'' # CHR ''='' # CHR '' '' # rest) =
      lex Idle (acc @ [Word c, Word ''<='']) rest"
  using lex_head_gen [OF assms, of "''IN''" acc rest] lex_head_gen [OF assms, of "''>=''" acc rest]
    lex_head_gen [OF assms, of "''<=''" acc rest]
  by (simp_all add: keyword_word)

lemma lex_atom:
  assumes "well_formed a"
  shows "lex Idle acc (emitted_text a @ CHR '' '' # rest) = lex Idle (acc @ atom_tokens a) rest"
    and "lex Idle acc (emitted_text a) = Some (acc @ atom_tokens a)"
proof -
  show "lex Idle acc (emitted_text a @ CHR '' '' # rest) = lex Idle (acc @ atom_tokens a) rest"
  proof (cases a)
    case (In c xs)
    then obtain y ys where xs: "xs = y # ys" and qf: "plain_names (y # ys)" and c: "known_column c"
      using assms by (cases xs) auto
    have "emitted_text a @ CHR '' '' # rest =
        c @ CHR '' '' # ''IN'' @ CHR '' '' # CHR ''('' # apostrophe #
          (join [apostrophe, CHR '','', CHR '' '', apostrophe] (y # ys) @
             apostrophe # CHR '')'' # CHR '' '' # rest)"
      by (simp add: In xs)
    then show ?thesis
      using lex_items [OF qf] c
      by (simp add: lex_head keyword_word apostrophe_neq In xs)
  next
    case (Ge c x)
    show ?thesis
    proof (cases x)
      case (Lit s)
      then have c: "known_column c" and s: "plain s"
        using assms Ge by simp_all
      have "emitted_text a @ CHR '' '' # rest =
          c @ CHR '' '' # ''>='' @ CHR '' '' # apostrophe # (s @ apostrophe # CHR '' '' # rest)"
        by (simp add: Ge Lit)
      then show ?thesis
        using c s by (simp add: lex_head keyword_word lex_lit apostrophe_neq Ge Lit)
    next
      case (Num t)
      then have c: "known_column c" and t: "t \<noteq> []" "list_all word_char t"
        using assms Ge number_literal_word [of t] by simp_all
      have "emitted_text a @ CHR '' '' # rest =
          c @ CHR '' '' # ''>='' @ CHR '' '' # (t @ CHR '' '' # rest)"
        by (simp add: Ge Num)
      then show ?thesis
        using c t by (simp add: lex_head keyword_word lex_idle_word_space Ge Num)
    qed
  next
    case (Le c x)
    show ?thesis
    proof (cases x)
      case (Lit s)
      then have c: "known_column c" and s: "plain s"
        using assms Le by simp_all
      have "emitted_text a @ CHR '' '' # rest =
          c @ CHR '' '' # ''<='' @ CHR '' '' # apostrophe # (s @ apostrophe # CHR '' '' # rest)"
        by (simp add: Le Lit)
      then show ?thesis
        using c s by (simp add: lex_head keyword_word lex_lit apostrophe_neq Le Lit)
    next
      case (Num t)
      then have c: "known_column c" and t: "t \<noteq> []" "list_all word_char t"
        using assms Le number_literal_word [of t] by simp_all
      have "emitted_text a @ CHR '' '' # rest =
          c @ CHR '' '' # ''<='' @ CHR '' '' # (t @ CHR '' '' # rest)"
        by (simp add: Le Num)
      then show ?thesis
        using c t by (simp add: lex_head keyword_word lex_idle_word_space Le Num)
    qed
  qed
next
  show "lex Idle acc (emitted_text a) = Some (acc @ atom_tokens a)"
  proof (cases a)
    case (In c xs)
    then obtain y ys where xs: "xs = y # ys" and qf: "plain_names (y # ys)" and c: "known_column c"
      using assms by (cases xs) auto
    have "emitted_text a =
        c @ CHR '' '' # ''IN'' @ CHR '' '' # CHR ''('' # apostrophe #
          (join [apostrophe, CHR '','', CHR '' '', apostrophe] (y # ys) @
             apostrophe # CHR '')'' # [])"
      by (simp add: In xs)
    then show ?thesis
      using lex_items [OF qf, of _ "[]"] c
      by (simp add: lex_head keyword_word apostrophe_neq In xs)
  next
    case (Ge c x)
    show ?thesis
    proof (cases x)
      case (Lit s)
      then have c: "known_column c" and s: "plain s"
        using assms Ge by simp_all
      have "emitted_text a =
          c @ CHR '' '' # ''>='' @ CHR '' '' # apostrophe # (s @ apostrophe # [])"
        by (simp add: Ge Lit)
      then show ?thesis
        using c s by (simp add: lex_head keyword_word lex_lit apostrophe_neq Ge Lit)
    next
      case (Num t)
      then have c: "known_column c" and t: "t \<noteq> []" "list_all word_char t"
        using assms Ge number_literal_word [of t] by simp_all
      have "emitted_text a = c @ CHR '' '' # ''>='' @ CHR '' '' # t"
        by (simp add: Ge Num)
      then show ?thesis
        using c t by (simp add: lex_head keyword_word lex_idle_word_end Ge Num)
    qed
  next
    case (Le c x)
    show ?thesis
    proof (cases x)
      case (Lit s)
      then have c: "known_column c" and s: "plain s"
        using assms Le by simp_all
      have "emitted_text a =
          c @ CHR '' '' # ''<='' @ CHR '' '' # apostrophe # (s @ apostrophe # [])"
        by (simp add: Le Lit)
      then show ?thesis
        using c s by (simp add: lex_head keyword_word lex_lit apostrophe_neq Le Lit)
    next
      case (Num t)
      then have c: "known_column c" and t: "t \<noteq> []" "list_all word_char t"
        using assms Le number_literal_word [of t] by simp_all
      have "emitted_text a = c @ CHR '' '' # ''<='' @ CHR '' '' # t"
        by (simp add: Le Num)
      then show ?thesis
        using c t by (simp add: lex_head keyword_word lex_idle_word_end Le Num)
    qed
  qed
qed

lemma lex_and:
  "lex Idle acc (CHR ''A'' # CHR ''N'' # CHR ''D'' # CHR '' '' # rest) =
     lex Idle (acc @ [Word ''AND'']) rest"
  using lex_idle_word_space [of "''AND''" acc rest] by (simp add: keyword_word)

lemma lex_atoms:
  "list_all well_formed (a # as) \<Longrightarrow>
   lex Idle acc (join '' AND '' (map emitted_text (a # as))) = Some (acc @ atoms_tokens (a # as))"
proof (induction as arbitrary: a acc)
  case Nil
  then show ?case by (simp add: lex_atom(2))
next
  case (Cons b bs)
  have a: "well_formed a" and rest: "list_all well_formed (b # bs)"
    using Cons.prems by simp_all
  have "join '' AND '' (map emitted_text (a # b # bs)) =
      emitted_text a @ CHR '' '' #
        (CHR ''A'' # CHR ''N'' # CHR ''D'' # CHR '' '' # join '' AND '' (map emitted_text (b # bs)))"
    by simp
  then show ?case
    using Cons.IH [OF rest, of "acc @ atom_tokens a @ [Word ''AND'']"]
    by (simp only: lex_atom(1) [OF a] lex_and) simp
qed

subsection \<open>Reading the tokens back\<close>

lemma parse_items:
  "parse (Elem c xs0) acc (lit_tokens (x # xs) @ RParen # rest) =
     parse Done (acc @ [In c (xs0 @ x # xs)]) rest"
  by (induction xs arbitrary: x xs0) simp_all

lemma parse_atom:
  assumes "well_formed a"
  shows "parse Start acc (atom_tokens a @ rest) = parse Done (acc @ [a]) rest"
proof (cases a)
  case (In c xs)
  then obtain y ys where xs: "xs = y # ys" and c: "known_column c"
    using assms by (cases xs) auto
  show ?thesis
    using c parse_items [of c "[]" acc y ys rest] by (simp add: In xs)
next
  case (Ge c x)
  then show ?thesis using assms by (cases x) simp_all
next
  case (Le c x)
  then show ?thesis using assms by (cases x) simp_all
qed

lemma parse_atoms:
  "list_all well_formed (a # as) \<Longrightarrow>
   parse Start acc (atoms_tokens (a # as)) = Some (acc @ a # as)"
proof (induction as arbitrary: a acc)
  case Nil
  then show ?case
    using parse_atom [of a acc "[]"] by simp
next
  case (Cons b bs)
  have a: "well_formed a" and rest: "list_all well_formed (b # bs)"
    using Cons.prems by simp_all
  show ?case
    using parse_atom [OF a, of acc "Word ''AND'' # atoms_tokens (b # bs)"]
      Cons.IH [OF rest, of "acc @ [a]"]
    by simp
qed

lemma read_back:
  assumes "as \<noteq> []" and "list_all well_formed as"
  shows "read_predicate (join '' AND '' (map emitted_text as)) = Some as"
proof -
  obtain b bs where as: "as = b # bs"
    using assms(1) by (cases as) auto
  show ?thesis
    using assms(2) lex_atoms [of b bs "[]"] parse_atoms [of b bs "[]"]
    by (simp add: read_predicate_def as del: join.simps atoms_tokens.simps)
qed

lemma digit_not_apostrophe: "apostrophe \<noteq> digit n"
proof -
  have "digit n \<in> set ''0123456789''"
    unfolding digit_def by (rule nth_mem) simp
  then show ?thesis
    by (auto simp: apostrophe_def)
qed

lemma digit_not_nul: "nul \<noteq> digit n"
proof -
  have "digit n \<in> set ''0123456789''"
    unfolding digit_def by (rule nth_mem) simp
  then show ?thesis
    by (auto simp: nul_def)
qed

lemma date_str_plain: "plain (date_str d)"
proof -
  have "apostrophe \<noteq> CHR ''-''" and "nul \<noteq> CHR ''-''"
    by (simp_all add: apostrophe_def nul_def)
  then show ?thesis
    by (simp add: plain_def date_str_def digit_not_apostrophe digit_not_nul)
qed

lemma expected_well_formed:
  assumes "plain_names (filtro_categoria f)" and "plain_names (filtro_modalidade f)"
    and "plain_names (filtro_estado f)" and "\<forall>x>0. number_literal (fs x)"
  shows "list_all well_formed (expected_atoms fs f)"
  using assms
  by (simp add: expected_atoms_def set_atoms_def date_atoms_def value_atoms_def known_column_def date_str_plain split: option.split)

lemma predicate_reads_back:
  assumes "plain_names (filtro_categoria f)" and "plain_names (filtro_modalidade f)"
    and "plain_names (filtro_estado f)" and "\<forall>x>0. number_literal (fs x)"
  shows "build_where_clause fs f =
     (if expected_atoms fs f = [] then None
      else Some (join '' AND '' (build_conditions fs f)))"
    and "expected_atoms fs f \<noteq> [] \<Longrightarrow>
      read_predicate (join '' AND '' (build_conditions fs f)) = Some (expected_atoms fs f)"
  using read_back [OF _ expected_well_formed [OF assms]]
  by (simp_all add: build_where_clause_def build_conditions_text)

lemma holds_set:
  "list_all (holds cmp r) (set_atoms f) =
     ((filtro_categoria f = [] \<or> member_of r ''c.categoria'' (filtro_categoria f)) \<and>
      (filtro_modalidade f = [] \<or> member_of r ''m.modalidade'' (filtro_modalidade f)) \<and>
      (filtro_estado f = [] \<or> member_of r ''mu.uf'' (filtro_estado f)))"
  by (simp add: set_atoms_def)

lemma holds_bounds:
  "list_all (holds cmp r) (date_atoms f @ value_atoms fs f) =
   list_all (cmp r) (date_atoms f @ value_atoms fs f)"
  by (simp add: date_atoms_def value_atoms_def split: option.split)

lemma matched_plain:
  assumes "plain_names (filtro_categoria f)" and "plain_names (filtro_modalidade f)"
    and "plain_names (filtro_estado f)" and "\<forall>x>0. number_literal (fs x)"
  shows "matched cmp fs f r = Some (list_all (holds cmp r) (expected_atoms fs f))"
  using predicate_reads_back [OF assms]
  by (cases "expected_atoms fs f = []") (simp_all add: matched_def predicate_matches_def)

lemma member_of_mono: "member_of r c xs \<Longrightarrow> set xs \<subseteq> set ys \<Longrightarrow> member_of r c ys"
  by (auto simp: member_of_def split: option.splits)

lemma matched_eq:
  assumes "plain_names (filtro_categoria f)" and "plain_names (filtro_modalidade f)"
    and "plain_names (filtro_estado f)" and "\<forall>x>0. number_literal (fs x)"
  shows "matched cmp fs f r =
      Some ((filtro_categoria f = [] \<or> member_of r ''c.categoria'' (filtro_categoria f)) \<and>
            (filtro_modalidade f = [] \<or> member_of r ''m.modalidade'' (filtro_modalidade f)) \<and>
            (filtro_estado f = [] \<or> member_of r ''mu.uf'' (filtro_estado f)) \<and>
            list_all (cmp r) (date_atoms f @ value_atoms fs f))"
  using matched_plain [OF assms, of cmp r] holds_set [of cmp r f] holds_bounds [of cmp r f fs]
  by (simp add: expected_atoms_def)

lemma atoms_update:
  "date_atoms (f\<lparr>filtro_categoria := ys\<rparr>) = date_atoms f"
  "date_atoms (f\<lparr>filtro_modalidade := ys\<rparr>) = date_atoms f"
  "date_atoms (f\<lparr>filtro_estado := ys\<rparr>) = date_atoms f"
  "value_atoms fs (f\<lparr>filtro_categoria := ys\<rparr>) = value_atoms fs f"
  "value_atoms fs (f\<lparr>filtro_modalidade := ys\<rparr>) = value_atoms fs f"
  "value_atoms fs (f\<lparr>filtro_estado := ys\<rparr>) = value_atoms fs f"
  by (simp_all add: date_atoms_def value_atoms_def)

lemma sample_number: "\<forall>x>0. number_literal ((\<lambda>x::real. ''500.0'') x)"
  by (simp add: number_literal_def is_digit_def)

subsection \<open>The connection guardian\<close>

lemma close_quietly_eq: "close_quietly E c s = called (Close c) s"
  by (simp add: close_quietly_def split: option.split)

lemma valid_handle_is_cached:
  "get_valid_connection E s = (Inr h, s') \<Longrightarrow> conn_cache s' = Some h"
  by (auto simp: get_valid_connection_def new_connection_def called_def Let_def
      split: option.splits if_splits sum.splits)

lemma new_connection_cases:
  "new_connection E \<lparr>conn_cache = None, trace = t\<rparr> =
     (if \<not> path_exists E t then
        (Inl (Stopped not_found_message),
         \<lparr>conn_cache = None, trace = t @ [PathExists, StError not_found_message, StStop]\<rparr>)
      else
        (case connect_result E (t @ [PathExists]) of
           Inl e \<Rightarrow> (Inl (Raised e), \<lparr>conn_cache = None, trace = t @ [PathExists, Connect]\<rparr>)
         | Inr h \<Rightarrow>
            (case execute_result E (t @ [PathExists, Connect]) h ''PRAGMA busy_timeout = 30000'' of
               Some e \<Rightarrow>
                 (Inl (Raised e),
                  \<lparr>conn_cache = Some h,
                   trace = t @ [PathExists, Connect, Execute h ''PRAGMA busy_timeout = 30000'']\<rparr>)
             | None \<Rightarrow>
                 (Inr h,
                  \<lparr>conn_cache = Some h,
                   trace = t @ [PathExists, Connect, Execute h ''PRAGMA busy_timeout = 30000'']\<rparr>))))"
  by (simp add: new_connection_def called_def Let_def split: sum.split option.split)

lemma new_connection_extends:
  "prefix t (trace (snd (new_connection E \<lparr>conn_cache = c, trace = t\<rparr>)))"
  by (simp add: new_connection_def called_def Let_def split: sum.split option.split)

lemma get_valid_connection_lost:
  assumes "conn_cache s = Some c"
    and "execute_result E (trace s) c ''SELECT 1'' = Some e"
    and "connection_lost e"
  shows "get_valid_connection E s =
     new_connection E \<lparr>conn_cache = None, trace = trace s @ [Execute c ''SELECT 1'', Close c]\<rparr>"
proof -
  have "(close_quietly E c (called (Execute c ''SELECT 1'') s))\<lparr>conn_cache := None\<rparr> =
      \<lparr>conn_cache = None, trace = trace s @ [Execute c ''SELECT 1'', Close c]\<rparr>"
    by (simp add: close_quietly_eq called_def)
  then show ?thesis
    using assms by (simp add: get_valid_connection_def)
qed

lemma fetch_query_after_loss:
  assumes "get_valid_connection E s = (Inr h, s1)"
    and "read_sql_result E (trace s1) h query = Inl e"
    and "connection_lost e"
  shows "fetch_query E query conn s =
     (case new_connection E \<lparr>conn_cache = None, trace = trace s1 @ [ReadSql h query, Close h]\<rparr> of
        (Inl f, s2) \<Rightarrow> (Inl f, s2)
      | (Inr h', s2) \<Rightarrow>
         (case read_sql_result E (trace s2) h' query of
            Inr df \<Rightarrow> (Inr df, s2\<lparr>trace := trace s2 @ [ReadSql h' query]\<rparr>)
          | Inl e' \<Rightarrow> (Inl (Raised e'), s2\<lparr>trace := trace s2 @ [ReadSql h' query]\<rparr>)))"
proof -
  have cached: "conn_cache s1 = Some h"
    using assms(1) by (rule valid_handle_is_cached)
  have "(close_quietly E h (called (ReadSql h query) s1))\<lparr>conn_cache := None\<rparr> =
      \<lparr>conn_cache = None, trace = trace s1 @ [ReadSql h query, Close h]\<rparr>"
    by (simp add: close_quietly_eq called_def)
  then show ?thesis
    using assms cached
    by (simp add: fetch_query_def read_sql_query_def get_valid_connection_def called_def
        split: prod.split sum.split)
qed

section \<open>The connection guardian: properties\<close>

text \<open>
  C1 (as amended). Let the handle \<open>h\<close> come from \<open>get_valid_connection\<close> and let the
  execution of the query on it raise an error of the connection-lost kind. Then
  \<open>fetch_query\<close> closes \<open>h\<close> once, whatever the close answers, and empties the cache. When
  the database file exists and \<^verbatim>\<open>sqlite3.connect\<close> and the busy-timeout pragma succeed, it
  executes the query exactly once more, on the handle just opened, and the outcome of that
  one retry is the outcome of \<open>fetch_query\<close>: the table, or the error of the second
  attempt. When the file is absent the session is stopped with the fatal message and the
  query is not executed again; an error of \<^verbatim>\<open>connect\<close> or of the pragma propagates in the
  same way, without a retry. In every case the history of calls is given in full.
\<close>

theorem retry_once_after_connection_lost:
  assumes "get_valid_connection E s = (Inr h, s1)"
    and "read_sql_result E (trace s1) h query = Inl e"
    and "connection_lost e"
  shows
    "(let t = trace s1 @ [ReadSql h query, Close h] in
      (\<forall>h'. path_exists E t \<and> connect_result E (t @ [PathExists]) = Inr h' \<and>
            execute_result E (t @ [PathExists, Connect]) h' ''PRAGMA busy_timeout = 30000'' = None \<longrightarrow>
         fetch_query E query conn s =
           ((case read_sql_result E
                   (t @ [PathExists, Connect, Execute h' ''PRAGMA busy_timeout = 30000'']) h' query of
               Inr df \<Rightarrow> Inr df
             | Inl e' \<Rightarrow> Inl (Raised e')),
            \<lparr>conn_cache = Some h',
             trace = t @ [PathExists, Connect, Execute h' ''PRAGMA busy_timeout = 30000'',
                          ReadSql h' query]\<rparr>)) \<and>
      (\<not> path_exists E t \<longrightarrow>
         fetch_query E query conn s =
           (Inl (Stopped not_found_message),
            \<lparr>conn_cache = None, trace = t @ [PathExists, StError not_found_message, StStop]\<rparr>)) \<and>
      (\<forall>e'. path_exists E t \<and> connect_result E (t @ [PathExists]) = Inl e' \<longrightarrow>
         fetch_query E query conn s =
           (Inl (Raised e'), \<lparr>conn_cache = None, trace = t @ [PathExists, Connect]\<rparr>)) \<and>
      (\<forall>h' e'. path_exists E t \<and> connect_result E (t @ [PathExists]) = Inr h' \<and>
            execute_result E (t @ [PathExists, Connect]) h' ''PRAGMA busy_timeout = 30000'' = Some e' \<longrightarrow>
         fetch_query E query conn s =
           (Inl (Raised e'),
            \<lparr>conn_cache = Some h',
             trace = t @ [PathExists, Connect, Execute h' ''PRAGMA busy_timeout = 30000'']\<rparr>)))"
  unfolding Let_def fetch_query_after_loss [OF assms] new_connection_cases
  by (auto split: sum.split)

text \<open>
  In all four environments the cached handle answers the probe and the query fails on it
  with an \<^verbatim>\<open>OperationalError\<close>. In the first the close itself raises and the file is
  there: one close, one new handle, one retry, and the table of the retry is returned. In
  the second the file is absent, in the third \<^verbatim>\<open>sqlite3.connect\<close> raises, in the fourth
  the pragma raises on the new handle: no retry.
\<close>

theorem retry_once_after_connection_lost_witness:
  "fetch_query (scenario True None (Some OperationalError) (Some OperationalError))
      ''SELECT COUNT(*) as total FROM pagamento'' None \<lparr>conn_cache = Some 0, trace = []\<rparr> =
   (Inr sample_table,
    \<lparr>conn_cache = Some 1,
     trace = [Execute 0 ''SELECT 1'', ReadSql 0 ''SELECT COUNT(*) as total FROM pagamento'',
              Close 0, PathExists, Connect, Execute 1 ''PRAGMA busy_timeout = 30000'',
              ReadSql 1 ''SELECT COUNT(*) as total FROM pagamento'']\<rparr>) \<and>
   fetch_query (scenario False None None (Some OperationalError))
      ''SELECT COUNT(*) as total FROM pagamento'' None \<lparr>conn_cache = Some 0, trace = []\<rparr> =
   (Inl (Stopped not_found_message),
    \<lparr>conn_cache = None,
     trace = [Execute 0 ''SELECT 1'', ReadSql 0 ''SELECT COUNT(*) as total FROM pagamento'',
              Close 0, PathExists, StError not_found_message, StStop]\<rparr>) \<and>
   fetch_query
      ((scenario True None None (Some OperationalError))
         \<lparr>connect_result := (\<lambda>t. Inl (OtherError ''PermissionError''))\<rparr>)
      ''SELECT COUNT(*) as total FROM pagamento'' None \<lparr>conn_cache = Some 0, trace = []\<rparr> =
   (Inl (Raised (OtherError ''PermissionError'')),
    \<lparr>conn_cache = None,
     trace = [Execute 0 ''SELECT 1'', ReadSql 0 ''SELECT COUNT(*) as total FROM pagamento'',
              Close 0, PathExists, Connect]\<rparr>) \<and>
   fetch_query
      ((scenario True None None (Some OperationalError))
         \<lparr>execute_result := (\<lambda>t h sql. if h = 1 then Some OperationalError else None)\<rparr>)
      ''SELECT COUNT(*) as total FROM pagamento'' None \<lparr>conn_cache = Some 0, trace = []\<rparr> =
   (Inl (Raised OperationalError),
    \<lparr>conn_cache = Some 1,
     trace = [Execute 0 ''SELECT 1'', ReadSql 0 ''SELECT COUNT(*) as total FROM pagamento'',
              Close 0, PathExists, Connect, Execute 1 ''PRAGMA busy_timeout = 30000'']\<rparr>)"
proof -
  let ?q = "''SELECT COUNT(*) as total FROM pagamento''"
  let ?s = "\<lparr>conn_cache = Some 0, trace = []\<rparr>"
  let ?s1 = "\<lparr>conn_cache = Some 0, trace = [Execute 0 ''SELECT 1'']\<rparr>"
  let ?E1 = "scenario True None (Some OperationalError) (Some OperationalError)"
  let ?E2 = "scenario False None None (Some OperationalError)"
  let ?E3 = "(scenario True None None (Some OperationalError))
         \<lparr>connect_result := (\<lambda>t. Inl (OtherError ''PermissionError''))\<rparr>"
  let ?E4 = "(scenario True None None (Some OperationalError))
         \<lparr>execute_result := (\<lambda>t h sql. if h = 1 then Some OperationalError else None)\<rparr>"
  have c: "connection_lost OperationalError"
    by (simp add: connection_lost_def)
  have a1: "get_valid_connection ?E1 ?s = (Inr 0, ?s1)"
    and a2: "get_valid_connection ?E2 ?s = (Inr 0, ?s1)"
    and a3: "get_valid_connection ?E3 ?s = (Inr 0, ?s1)"
    and a4: "get_valid_connection ?E4 ?s = (Inr 0, ?s1)"
    by (simp_all add: get_valid_connection_def scenario_def called_def)
  have b1: "read_sql_result ?E1 (trace ?s1) 0 ?q = Inl OperationalError"
    and b2: "read_sql_result ?E2 (trace ?s1) 0 ?q = Inl OperationalError"
    and b3: "read_sql_result ?E3 (trace ?s1) 0 ?q = Inl OperationalError"
    and b4: "read_sql_result ?E4 (trace ?s1) 0 ?q = Inl OperationalError"
    by (simp_all add: scenario_def)
  show ?thesis
    using retry_once_after_connection_lost [OF a1 b1 c, of None]
      retry_once_after_connection_lost [OF a2 b2 c, of None]
      retry_once_after_connection_lost [OF a3 b3 c, of None]
      retry_once_after_connection_lost [OF a4 b4 c, of None]
    by (simp add: Let_def scenario_def)
qed

text \<open>
  The claim as first stated asks for a retry after every connection-lost error. Here the
  database file is gone when the handle is reopened: the query is executed once, the
  handle is closed, the session is stopped, and there is no second execution.
\<close>

theorem retry_once_after_connection_lost_counterexample:
  "fetch_query (scenario False None None (Some OperationalError))
      ''SELECT COUNT(*) as total FROM pagamento'' None \<lparr>conn_cache = Some 0, trace = []\<rparr> =
   (Inl (Stopped not_found_message),
    \<lparr>conn_cache = None,
     trace = [Execute 0 ''SELECT 1'', ReadSql 0 ''SELECT COUNT(*) as total FROM pagamento'',
              Close 0, PathExists, StError not_found_message, StStop]\<rparr>)"
  by (simp add: fetch_query_def get_valid_connection_def new_connection_def read_sql_query_def
      close_quietly_def called_def connection_lost_def scenario_def)

text \<open>
  C2. When the execution of the query on the handle obtained from
  \<open>get_valid_connection\<close> raises an error that is not of the connection-lost kind,
  \<open>fetch_query\<close> raises that same error and does nothing else: the session is the one
  \<open>get_valid_connection\<close> left, with the single execution of the query added to the
  history. The cache is untouched, no handle is closed and the query is not executed again.
\<close>

theorem other_errors_propagate:
  assumes "get_valid_connection E s = (Inr h, s1)"
    and "read_sql_result E (trace s1) h query = Inl e"
    and "\<not> connection_lost e"
  shows "fetch_query E query conn s =
     (Inl (Raised e), s1\<lparr>trace := trace s1 @ [ReadSql h query]\<rparr>)"
  using assms by (simp add: fetch_query_def read_sql_query_def called_def)

theorem other_errors_propagate_witness:
  "fetch_query (scenario True None None (Some (OtherError ''DatabaseError'')))
      ''SELECT COUNT(*) as total FROM pagamento'' None \<lparr>conn_cache = Some 0, trace = []\<rparr> =
   (Inl (Raised (OtherError ''DatabaseError'')),
    \<lparr>conn_cache = Some 0,
     trace = [Execute 0 ''SELECT 1'', ReadSql 0 ''SELECT COUNT(*) as total FROM pagamento'']\<rparr>)"
proof -
  let ?E = "scenario True None None (Some (OtherError ''DatabaseError''))"
  have a: "get_valid_connection ?E \<lparr>conn_cache = Some 0, trace = []\<rparr> =
      (Inr 0, \<lparr>conn_cache = Some 0, trace = [Execute 0 ''SELECT 1'']\<rparr>)"
    by (simp add: get_valid_connection_def scenario_def called_def)
  have b: "read_sql_result ?E (trace \<lparr>conn_cache = Some 0, trace = [Execute 0 ''SELECT 1'']\<rparr>) 0
      ''SELECT COUNT(*) as total FROM pagamento'' = Inl (OtherError ''DatabaseError'')"
    by (simp add: scenario_def)
  have c: "\<not> connection_lost (OtherError ''DatabaseError'')"
    by (simp add: connection_lost_def)
  show ?thesis
    using other_errors_propagate [OF a b c, of None] by simp
qed

text \<open>
  C3 (as amended). \<open>get_valid_connection\<close> returns the cached handle, and leaves the
  cache as it is, whenever the probe \<^verbatim>\<open>SELECT 1\<close> on it succeeds. When the probe raises an
  error of the connection-lost kind it closes the cached handle, whatever the close
  answers, empties the cache and, if the database file exists and \<^verbatim>\<open>sqlite3.connect\<close> and
  the busy-timeout pragma succeed, returns the handle just opened, now cached. Whenever no
  cached handle is left (there was none, or it has just been discarded) and the file is
  absent, it shows the fatal message and stops the session without opening anything. A
  probe error of any other class propagates, the handle neither closed nor dropped from the
  cache.
\<close>

theorem get_valid_connection_cases:
  "(\<forall>c. conn_cache s = Some c \<and> execute_result E (trace s) c ''SELECT 1'' = None \<longrightarrow>
      get_valid_connection E s = (Inr c, s\<lparr>trace := trace s @ [Execute c ''SELECT 1'']\<rparr>)) \<and>
   (\<forall>c e h. conn_cache s = Some c \<and> execute_result E (trace s) c ''SELECT 1'' = Some e \<and>
        connection_lost e \<and>
        path_exists E (trace s @ [Execute c ''SELECT 1'', Close c]) \<and>
        connect_result E (trace s @ [Execute c ''SELECT 1'', Close c, PathExists]) = Inr h \<and>
        execute_result E (trace s @ [Execute c ''SELECT 1'', Close c, PathExists, Connect]) h
          ''PRAGMA busy_timeout = 30000'' = None \<longrightarrow>
      get_valid_connection E s =
        (Inr h,
         \<lparr>conn_cache = Some h,
          trace = trace s @ [Execute c ''SELECT 1'', Close c, PathExists, Connect,
                             Execute h ''PRAGMA busy_timeout = 30000'']\<rparr>)) \<and>
   (conn_cache s = None \<and> \<not> path_exists E (trace s) \<longrightarrow>
      get_valid_connection E s =
        (Inl (Stopped not_found_message),
         \<lparr>conn_cache = None,
          trace = trace s @ [PathExists, StError not_found_message, StStop]\<rparr>)) \<and>
   (\<forall>c e. conn_cache s = Some c \<and> execute_result E (trace s) c ''SELECT 1'' = Some e \<and>
        connection_lost e \<and> \<not> path_exists E (trace s @ [Execute c ''SELECT 1'', Close c]) \<longrightarrow>
      get_valid_connection E s =
        (Inl (Stopped not_found_message),
         \<lparr>conn_cache = None,
          trace = trace s @ [Execute c ''SELECT 1'', Close c, PathExists,
                             StError not_found_message, StStop]\<rparr>)) \<and>
   (\<forall>c e. conn_cache s = Some c \<and> execute_result E (trace s) c ''SELECT 1'' = Some e \<and>
        \<not> connection_lost e \<longrightarrow>
      get_valid_connection E s =
        (Inl (Raised e), s\<lparr>trace := trace s @ [Execute c ''SELECT 1'']\<rparr>))"
proof -
  have none: "get_valid_connection E s = new_connection E \<lparr>conn_cache = None, trace = trace s\<rparr>"
    if "conn_cache s = None"
    using that by (cases s) (simp add: get_valid_connection_def)
  show ?thesis
    by (auto simp: get_valid_connection_lost new_connection_cases none)
      (simp_all add: get_valid_connection_def called_def)
qed

text \<open>One environment for each of the five cases; in the second the close raises.\<close>

theorem get_valid_connection_cases_witness:
  "get_valid_connection (scenario True None None None) \<lparr>conn_cache = Some 0, trace = []\<rparr> =
     (Inr 0, \<lparr>conn_cache = Some 0, trace = [Execute 0 ''SELECT 1'']\<rparr>) \<and>
   get_valid_connection (scenario True (Some ProgrammingError) (Some OperationalError) None)
       \<lparr>conn_cache = Some 0, trace = []\<rparr> =
     (Inr 1,
      \<lparr>conn_cache = Some 1,
       trace = [Execute 0 ''SELECT 1'', Close 0, PathExists, Connect,
                Execute 1 ''PRAGMA busy_timeout = 30000'']\<rparr>) \<and>
   get_valid_connection (scenario False None None None) \<lparr>conn_cache = None, trace = []\<rparr> =
     (Inl (Stopped not_found_message),
      \<lparr>conn_cache = None, trace = [PathExists, StError not_found_message, StStop]\<rparr>) \<and>
   get_valid_connection (scenario False (Some InterfaceError) None None)
       \<lparr>conn_cache = Some 0, trace = []\<rparr> =
     (Inl (Stopped not_found_message),
      \<lparr>conn_cache = None,
       trace = [Execute 0 ''SELECT 1'', Close 0, PathExists, StError not_found_message, StStop]\<rparr>) \<and>
   get_valid_connection (scenario True (Some (OtherError ''MemoryError'')) None None)
       \<lparr>conn_cache = Some 0, trace = []\<rparr> =
     (Inl (Raised (OtherError ''MemoryError'')),
      \<lparr>conn_cache = Some 0, trace = [Execute 0 ''SELECT 1'']\<rparr>)"
  using
    get_valid_connection_cases [of "\<lparr>conn_cache = Some 0, trace = []\<rparr>" "scenario True None None None"]
    get_valid_connection_cases [of "\<lparr>conn_cache = Some 0, trace = []\<rparr>"
      "scenario True (Some ProgrammingError) (Some OperationalError) None"]
    get_valid_connection_cases [of "\<lparr>conn_cache = None, trace = []\<rparr>" "scenario False None None None"]
    get_valid_connection_cases [of "\<lparr>conn_cache = Some 0, trace = []\<rparr>"
      "scenario False (Some InterfaceError) None None"]
    get_valid_connection_cases [of "\<lparr>conn_cache = Some 0, trace = []\<rparr>"
      "scenario True (Some (OtherError ''MemoryError'')) None None"]
  by (simp add: scenario_def connection_lost_def)

text \<open>
  The claim as first stated has every failed probe followed by a close and a fresh handle.
  In the first environment the probe fails on a closed handle and the file is gone: the
  handle is closed, nothing is opened, the session stops. In the second the probe raises
  an error outside the three classes: it propagates, and the handle is neither closed nor
  replaced.
\<close>

theorem get_valid_connection_cases_counterexample:
  "get_valid_connection (scenario False (Some ProgrammingError) None None)
       \<lparr>conn_cache = Some 0, trace = []\<rparr> =
     (Inl (Stopped not_found_message),
      \<lparr>conn_cache = None,
       trace = [Execute 0 ''SELECT 1'', Close 0, PathExists, StError not_found_message, StStop]\<rparr>) \<and>
   get_valid_connection (scenario True (Some (OtherError ''DatabaseError'')) None None)
       \<lparr>conn_cache = Some 0, trace = []\<rparr> =
     (Inl (Raised (OtherError ''DatabaseError'')),
      \<lparr>conn_cache = Some 0, trace = [Execute 0 ''SELECT 1'']\<rparr>)"
  by (simp add: get_valid_connection_def new_connection_def close_quietly_def called_def
      connection_lost_def scenario_def)

text \<open>
  C9. The argument \<open>conn\<close> has no effect: for any two values of it, \<^verbatim>\<open>None\<close> included,
  \<open>fetch_query\<close> on the same query and the same session returns the same result and
  leaves the same session. The handle it executes the query on is the one
  \<open>get_valid_connection\<close> returns, which is the cached one: the first call made after
  \<open>get_valid_connection\<close> is the execution of the query on that handle.
\<close>

theorem conn_argument_ignored:
  "fetch_query E query conn s = fetch_query E query conn' s \<and>
   (\<forall>h s1. get_valid_connection E s = (Inr h, s1) \<longrightarrow>
      conn_cache s1 = Some h \<and>
      prefix (trace s1 @ [ReadSql h query]) (trace (snd (fetch_query E query conn s))))"
proof -
  have "prefix (trace s1 @ [ReadSql h query]) (trace (snd (fetch_query E query conn s)))"
    if gvc: "get_valid_connection E s = (Inr h, s1)" for h s1
  proof (cases "read_sql_result E (trace s1) h query")
    case (Inr df)
    then show ?thesis
      using gvc by (simp add: fetch_query_def read_sql_query_def called_def)
  next
    case (Inl e)
    show ?thesis
    proof (cases "connection_lost e")
      case False
      then show ?thesis
        using gvc Inl by (simp add: fetch_query_def read_sql_query_def called_def)
    next
      case True
      have "prefix (trace s1 @ [ReadSql h query, Close h])
          (trace (snd (new_connection E
             \<lparr>conn_cache = None, trace = trace s1 @ [ReadSql h query, Close h]\<rparr>)))"
        by (rule new_connection_extends)
      then have "prefix (trace s1 @ [ReadSql h query])
          (trace (snd (new_connection E
             \<lparr>conn_cache = None, trace = trace s1 @ [ReadSql h query, Close h]\<rparr>)))"
        by (auto simp: prefix_def)
      then show ?thesis
        unfolding fetch_query_after_loss [OF gvc Inl True]
        by (auto simp: prefix_def split: prod.split sum.split)
    qed
  qed
  then show ?thesis
    by (auto simp: fetch_query_def dest: valid_handle_is_cached)
qed

theorem conn_argument_ignored_witness:
  "fetch_query (scenario True None None None) ''SELECT COUNT(*) as total FROM pagamento'' None
      \<lparr>conn_cache = Some 0, trace = []\<rparr> =
   fetch_query (scenario True None None None) ''SELECT COUNT(*) as total FROM pagamento'' (Some 7)
      \<lparr>conn_cache = Some 0, trace = []\<rparr> \<and>
   prefix [Execute 0 ''SELECT 1'', ReadSql 0 ''SELECT COUNT(*) as total FROM pagamento'']
     (trace (snd (fetch_query (scenario True None None None)
        ''SELECT COUNT(*) as total FROM pagamento'' None \<lparr>conn_cache = Some 0, trace = []\<rparr>)))"
proof -
  have "get_valid_connection (scenario True None None None) \<lparr>conn_cache = Some 0, trace = []\<rparr> =
      (Inr 0, \<lparr>conn_cache = Some 0, trace = [Execute 0 ''SELECT 1'']\<rparr>)"
    by (simp add: get_valid_connection_def scenario_def called_def)
  then show ?thesis
    using conn_argument_ignored [where E = "scenario True None None None"
        and query = "''SELECT COUNT(*) as total FROM pagamento''" and conn = None and conn' = "Some 7"
        and s = "\<lparr>conn_cache = Some 0, trace = []\<rparr>"]
    by auto
qed

section \<open>The query builder: properties\<close>

text \<open>
  C4. When the category, modality and state lists are all empty and both toggles are off,
  \<open>build_where_clause\<close> returns \<^verbatim>\<open>None\<close>: there is no predicate and the query runs
  unfiltered. The stored date and value bounds play no part.
\<close>

theorem empty_filters_no_predicate:
  assumes "filtro_categoria f = []" and "filtro_modalidade f = []" and "filtro_estado f = []"
    and "\<not> use_date_filter f" and "\<not> use_value_filter f"
  shows "build_where_clause float_str f = None"
  using assms by (simp add: build_where_clause_def build_conditions_def)

theorem empty_filters_no_predicate_witness:
  "build_where_clause (\<lambda>x. ''100.0'')
     (no_filters\<lparr>filtro_data_inicio := Some \<lparr>year = 2020, month = 1, day = 15\<rparr>,
        filtro_valor_min := 100\<rparr>) = None"
  using empty_filters_no_predicate
    [of "no_filters\<lparr>filtro_data_inicio := Some \<lparr>year = 2020, month = 1, day = 15\<rparr>,
        filtro_valor_min := 100\<rparr>" "\<lambda>x. ''100.0''"]
  by (simp add: no_filters_def)

text \<open>
  C5 (as amended). For every filter state whose category, modality and state names hold
  neither an apostrophe nor a NUL character, and with amounts written as numeric
  literals, the predicate is read by the database as the conjunction (logical AND) of the
  conditions of the enabled fields and of no others: a membership test for each non-empty
  list, the date bounds that are set when the date toggle is on, the value bounds greater
  than 0 when the value toggle is on. A row is matched exactly when all of them hold. With
  no enabled condition there is no predicate.
\<close>

theorem where_clause_is_conjunction:
  assumes "plain_names (filtro_categoria f)" and "plain_names (filtro_modalidade f)"
    and "plain_names (filtro_estado f)" and "\<forall>x>0. number_literal (fs x)"
  shows
    "(case build_where_clause fs f of
        None \<Rightarrow> expected_atoms fs f = []
      | Some p \<Rightarrow>
          expected_atoms fs f \<noteq> [] \<and>
          read_predicate p = Some (expected_atoms fs f) \<and>
          (\<forall>cmp r. predicate_matches cmp p r =
             Some (list_all (holds cmp r) (expected_atoms fs f))))"
  using predicate_reads_back [OF assms]
  by (cases "expected_atoms fs f = []") (simp_all add: predicate_matches_def)

text \<open>Two lists, a start date and a maximum: four conditions, read back as they were meant.\<close>

theorem where_clause_is_conjunction_witness:
  "build_where_clause (\<lambda>x. ''500.0'')
     (no_filters\<lparr>filtro_categoria := [''Base'', ''Nacional''], filtro_estado := [''SP''],
        use_date_filter := True, filtro_data_inicio := Some \<lparr>year = 2021, month = 3, day = 9\<rparr>,
        use_value_filter := True, filtro_valor_max := 500\<rparr>) =
     Some (''c.categoria IN ('Base', 'Nacional') AND mu.uf IN ('SP') AND '' @
           ''p.data_pagamento >= '2021-03-09' AND p.valor_pago <= 500.0'') \<and>
   read_predicate
     (''c.categoria IN ('Base', 'Nacional') AND mu.uf IN ('SP') AND '' @
      ''p.data_pagamento >= '2021-03-09' AND p.valor_pago <= 500.0'')
   = Some [In ''c.categoria'' [''Base'', ''Nacional''], In ''mu.uf'' [''SP''],
           Ge ''p.data_pagamento'' (Lit ''2021-03-09''), Le ''p.valor_pago'' (Num ''500.0'')] \<and>
   predicate_matches (\<lambda>r a. True)
     (''c.categoria IN ('Base', 'Nacional') AND mu.uf IN ('SP') AND '' @
      ''p.data_pagamento >= '2021-03-09' AND p.valor_pago <= 500.0'')
     [''c.categoria'' \<mapsto> ''Base'', ''mu.uf'' \<mapsto> ''RJ''] = Some False"
proof -
  let ?f = "no_filters\<lparr>filtro_categoria := [''Base'', ''Nacional''], filtro_estado := [''SP''],
        use_date_filter := True, filtro_data_inicio := Some \<lparr>year = 2021, month = 3, day = 9\<rparr>,
        use_value_filter := True, filtro_valor_max := 500\<rparr>"
  have qf: "plain_names (filtro_categoria ?f)" "plain_names (filtro_modalidade ?f)"
    "plain_names (filtro_estado ?f)"
    by (simp_all add: no_filters_def plain_names_def plain_def apostrophe_def nul_def)
  have p: "build_where_clause (\<lambda>x. ''500.0'') ?f =
      Some (''c.categoria IN ('Base', 'Nacional') AND mu.uf IN ('SP') AND '' @
            ''p.data_pagamento >= '2021-03-09' AND p.valor_pago <= 500.0'')"
    by (simp add: no_filters_def build_where_clause_def build_conditions_def date_str_def
        digit_def apostrophe_def)
  have e: "expected_atoms (\<lambda>x. ''500.0'') ?f =
      [In ''c.categoria'' [''Base'', ''Nacional''], In ''mu.uf'' [''SP''],
       Ge ''p.data_pagamento'' (Lit ''2021-03-09''), Le ''p.valor_pago'' (Num ''500.0'')]"
    by (simp add: no_filters_def expected_atoms_def set_atoms_def date_atoms_def
        value_atoms_def date_str_def digit_def)
  show ?thesis
    using where_clause_is_conjunction [OF qf sample_number]
    by (simp add: p e member_of_def)
qed

text \<open>
  The claim as first stated covers every filter state. The values are interpolated between
  apostrophes as they are, so a name that holds an apostrophe can close the literal and
  go on with SQL of its own. Here one category is selected and no modality, and the
  predicate the database reads has a condition on the modality: a condition that no
  enabled field contributes.
\<close>

theorem where_clause_is_conjunction_counterexample:
  "build_where_clause (\<lambda>x. ''0.0'')
     (no_filters\<lparr>filtro_categoria := [''a') AND m.modalidade IN ('Judo'']\<rparr>) =
     Some ''c.categoria IN ('a') AND m.modalidade IN ('Judo')'' \<and>
   read_predicate ''c.categoria IN ('a') AND m.modalidade IN ('Judo')'' =
     Some [In ''c.categoria'' [''a''], In ''m.modalidade'' [''Judo'']] \<and>
   expected_atoms (\<lambda>x. ''0.0'')
     (no_filters\<lparr>filtro_categoria := [''a') AND m.modalidade IN ('Judo'']\<rparr>) =
     [In ''c.categoria'' [''a') AND m.modalidade IN ('Judo'']]"
  by (simp add: read_predicate_def build_where_clause_def build_conditions_def
      expected_atoms_def set_atoms_def date_atoms_def value_atoms_def
      no_filters_def known_column_def word_char_def apostrophe_def nul_def)

text \<open>
  C6. With the date toggle on, a start date set and no end date, the conditions on the
  payment date are exactly the lower bound \<^verbatim>\<open>p.data_pagamento >= 'start'\<close>, and the
  predicate returned is the conditions of the three lists, then that lower bound, then the
  conditions on the amount, joined by \<^verbatim>\<open>AND\<close>: there is no upper bound. With the date
  toggle off there is no condition on the payment date, the predicate is the same
  whatever start and end dates are stored, and it is the join of the conditions of the
  lists and on the amount alone.
\<close>

theorem date_toggle:
  "(use_date_filter f \<and> filtro_data_inicio f = Some d \<and> filtro_data_fim f = None \<longrightarrow>
      filter (prefix ''p.data_pagamento'') (build_conditions fs f) =
        [''p.data_pagamento >= '' @ [apostrophe] @ date_str d @ [apostrophe]] \<and>
      build_where_clause fs f =
        Some (join '' AND ''
          (build_conditions fs (f\<lparr>use_date_filter := False, use_value_filter := False\<rparr>) @
           [''p.data_pagamento >= '' @ [apostrophe] @ date_str d @ [apostrophe]] @
           filter (prefix ''p.valor_pago'') (build_conditions fs f))))
   \<and> (\<not> use_date_filter f \<longrightarrow>
      filter (prefix ''p.data_pagamento'') (build_conditions fs f) = [] \<and>
      build_where_clause fs (f\<lparr>filtro_data_inicio := a, filtro_data_fim := b\<rparr>) =
        build_where_clause fs f \<and>
      build_where_clause fs f =
        (case build_conditions fs (f\<lparr>use_date_filter := False, use_value_filter := False\<rparr>) @
              filter (prefix ''p.valor_pago'') (build_conditions fs f) of
           [] \<Rightarrow> None
         | c # cs \<Rightarrow> Some (join '' AND '' (c # cs))))"
proof -
  have whole: "build_conditions fs f =
      build_conditions fs (f\<lparr>use_date_filter := False, use_value_filter := False\<rparr>) @
      filter (prefix ''p.data_pagamento'') (build_conditions fs f) @
      filter (prefix ''p.valor_pago'') (build_conditions fs f)"
    by (simp only: set_part on_data on_valor)
      (simp add: build_conditions_text expected_atoms_def)
  have ret: "build_where_clause fs f =
      (case build_conditions fs f of [] \<Rightarrow> None | c # cs \<Rightarrow> Some (join '' AND '' (c # cs)))"
    by (simp add: build_where_clause_def split: list.split)
  have date: "filter (prefix ''p.data_pagamento'') (build_conditions fs f) =
        [''p.data_pagamento >= '' @ [apostrophe] @ date_str d @ [apostrophe]]"
    if "use_date_filter f" "filtro_data_inicio f = Some d" "filtro_data_fim f = None"
    using that by (simp add: on_data date_atoms_def)
  have nodate: "filter (prefix ''p.data_pagamento'') (build_conditions fs f) = []"
    if "\<not> use_date_filter f"
    using that by (simp add: on_data date_atoms_def)
  have same: "build_where_clause fs (f\<lparr>filtro_data_inicio := a, filtro_data_fim := b\<rparr>) =
        build_where_clause fs f"
    if "\<not> use_date_filter f"
    using that by (simp add: build_where_clause_def build_conditions_def)
  show ?thesis
  proof (intro conjI impI)
    assume on: "use_date_filter f \<and> filtro_data_inicio f = Some d \<and> filtro_data_fim f = None"
    then show "filter (prefix ''p.data_pagamento'') (build_conditions fs f) =
        [''p.data_pagamento >= '' @ [apostrophe] @ date_str d @ [apostrophe]]"
      using date by simp
    have eq: "build_conditions fs f =
        build_conditions fs (f\<lparr>use_date_filter := False, use_value_filter := False\<rparr>) @
        [''p.data_pagamento >= '' @ [apostrophe] @ date_str d @ [apostrophe]] @
        filter (prefix ''p.valor_pago'') (build_conditions fs f)"
      using whole date on by simp
    have "build_conditions fs f \<noteq> []"
      by (subst eq) simp
    then have "build_where_clause fs f = Some (join '' AND '' (build_conditions fs f))"
      by (simp add: build_where_clause_def)
    also have "build_conditions fs f =
        build_conditions fs (f\<lparr>use_date_filter := False, use_value_filter := False\<rparr>) @
        [''p.data_pagamento >= '' @ [apostrophe] @ date_str d @ [apostrophe]] @
        filter (prefix ''p.valor_pago'') (build_conditions fs f)"
      by (rule eq)
    finally show "build_where_clause fs f =
        Some (join '' AND ''
          (build_conditions fs (f\<lparr>use_date_filter := False, use_value_filter := False\<rparr>) @
           [''p.data_pagamento >= '' @ [apostrophe] @ date_str d @ [apostrophe]] @
           filter (prefix ''p.valor_pago'') (build_conditions fs f)))" .
  next
    assume off: "\<not> use_date_filter f"
    then show "filter (prefix ''p.data_pagamento'') (build_conditions fs f) = []"
      by (rule nodate)
    show "build_where_clause fs (f\<lparr>filtro_data_inicio := a, filtro_data_fim := b\<rparr>) =
        build_where_clause fs f"
      using off by (rule same)
    have eq: "build_conditions fs f =
        build_conditions fs (f\<lparr>use_date_filter := False, use_value_filter := False\<rparr>) @
        filter (prefix ''p.valor_pago'') (build_conditions fs f)"
      using whole nodate [OF off] by simp
    note ret
    also have "build_conditions fs f =
        build_conditions fs (f\<lparr>use_date_filter := False, use_value_filter := False\<rparr>) @
        filter (prefix ''p.valor_pago'') (build_conditions fs f)"
      by (rule eq)
    finally show "build_where_clause fs f =
        (case build_conditions fs (f\<lparr>use_date_filter := False, use_value_filter := False\<rparr>) @
              filter (prefix ''p.valor_pago'') (build_conditions fs f) of
           [] \<Rightarrow> None
         | c # cs \<Rightarrow> Some (join '' AND '' (c # cs)))" .
  qed
qed

text \<open>
  A category, the toggle on with a start date, a maximum amount; and the same category with
  the toggle off and two stored dates.
\<close>

theorem date_toggle_witness:
  "build_where_clause (\<lambda>x. ''500.0'')
     (no_filters\<lparr>filtro_categoria := [''Base''], use_date_filter := True,
        filtro_data_inicio := Some \<lparr>year = 2021, month = 3, day = 9\<rparr>,
        use_value_filter := True, filtro_valor_max := 500\<rparr>)
     = Some ''c.categoria IN ('Base') AND p.data_pagamento >= '2021-03-09' AND p.valor_pago <= 500.0'' \<and>
   build_where_clause (\<lambda>x. ''500.0'')
     (no_filters\<lparr>filtro_categoria := [''Base''],
        filtro_data_inicio := Some \<lparr>year = 2021, month = 3, day = 9\<rparr>,
        filtro_data_fim := Some \<lparr>year = 2022, month = 12, day = 31\<rparr>\<rparr>)
     = Some ''c.categoria IN ('Base')''"
proof -
  let ?on = "no_filters\<lparr>filtro_categoria := [''Base''], use_date_filter := True,
        filtro_data_inicio := Some \<lparr>year = 2021, month = 3, day = 9\<rparr>,
        use_value_filter := True, filtro_valor_max := 500\<rparr>"
  let ?off = "no_filters\<lparr>filtro_categoria := [''Base'']\<rparr>"
  have on: "use_date_filter ?on \<and>
      filtro_data_inicio ?on = Some \<lparr>year = 2021, month = 3, day = 9\<rparr> \<and>
      filtro_data_fim ?on = None"
    and off: "\<not> use_date_filter ?off"
    by (simp_all add: no_filters_def)
  show ?thesis
    using on off
      date_toggle [where f = ?on and d = "\<lparr>year = 2021, month = 3, day = 9\<rparr>"
        and fs = "\<lambda>x. ''500.0''"]
      date_toggle [where f = ?off and fs = "\<lambda>x. ''500.0''"
        and a = "Some \<lparr>year = 2021, month = 3, day = 9\<rparr>"
        and b = "Some \<lparr>year = 2022, month = 12, day = 31\<rparr>"]
    by (simp add: no_filters_def build_conditions_def date_str_def digit_def apostrophe_def)
qed

text \<open>
  C7. With the value toggle on, a minimum of 0 contributes no lower bound on the amount
  and a maximum of 0 contributes no upper bound. Each bound is judged alone: with a
  minimum of 0 the conditions on the amount are the upper bound if the maximum is greater
  than 0 and nothing otherwise, and the other way round.
\<close>

theorem value_zero_sentinel:
  "(use_value_filter f \<and> filtro_valor_min f = 0 \<longrightarrow>
      filter (prefix ''p.valor_pago >='') (build_conditions fs f) = [] \<and>
      filter (prefix ''p.valor_pago'') (build_conditions fs f) =
        (if filtro_valor_max f > 0 then [''p.valor_pago <= '' @ fs (filtro_valor_max f)] else []))
   \<and> (use_value_filter f \<and> filtro_valor_max f = 0 \<longrightarrow>
      filter (prefix ''p.valor_pago <='') (build_conditions fs f) = [] \<and>
      filter (prefix ''p.valor_pago'') (build_conditions fs f) =
        (if filtro_valor_min f > 0 then [''p.valor_pago >= '' @ fs (filtro_valor_min f)] else []))"
  by (simp add: on_valor on_valor_ge on_valor_le value_atoms_def)

theorem value_zero_sentinel_witness:
  "filter (prefix ''p.valor_pago'')
     (build_conditions (\<lambda>x. ''500.0'')
       (no_filters\<lparr>filtro_estado := [''SP''], use_value_filter := True, filtro_valor_max := 500\<rparr>))
     = [''p.valor_pago <= 500.0''] \<and>
   filter (prefix ''p.valor_pago'')
     (build_conditions (\<lambda>x. ''500.0'')
       (no_filters\<lparr>filtro_estado := [''SP''], use_value_filter := True, filtro_valor_min := 500\<rparr>))
     = [''p.valor_pago >= 500.0'']"
  using
    value_zero_sentinel [of
      "no_filters\<lparr>filtro_estado := [''SP''], use_value_filter := True, filtro_valor_max := 500\<rparr>"
      "\<lambda>x. ''500.0''"]
    value_zero_sentinel [of
      "no_filters\<lparr>filtro_estado := [''SP''], use_value_filter := True, filtro_valor_min := 500\<rparr>"
      "\<lambda>x. ''500.0''"]
  by (simp add: no_filters_def)

text \<open>
  C8 (as amended). For every filter state whose category, modality and state names hold
  neither an apostrophe nor a NUL character, and with amounts written as numeric
  literals, the rows matched by the predicate that \<open>build_where_clause\<close> produces are
  those whose column value is a member of each non-empty set, and which satisfy the date
  and value bounds: each non-empty set contributes a membership test equivalent to
  \<open>field \<in> set\<close>. Replacing a non-empty set by a set of such names with at least the same
  elements never loses a matched row.
\<close>

theorem membership_filters:
  assumes "plain_names (filtro_categoria f)" and "plain_names (filtro_modalidade f)"
    and "plain_names (filtro_estado f)" and "\<forall>x>0. number_literal (fs x)"
  shows
    "matched cmp fs f r =
      Some ((filtro_categoria f = [] \<or> member_of r ''c.categoria'' (filtro_categoria f)) \<and>
            (filtro_modalidade f = [] \<or> member_of r ''m.modalidade'' (filtro_modalidade f)) \<and>
            (filtro_estado f = [] \<or> member_of r ''mu.uf'' (filtro_estado f)) \<and>
            list_all (cmp r) (date_atoms f @ value_atoms fs f)) \<and>
     (\<forall>ys. filtro_categoria f \<noteq> [] \<and> plain_names ys \<and> set (filtro_categoria f) \<subseteq> set ys \<and>
           matched cmp fs f r = Some True \<longrightarrow>
           matched cmp fs (f\<lparr>filtro_categoria := ys\<rparr>) r = Some True) \<and>
     (\<forall>ys. filtro_modalidade f \<noteq> [] \<and> plain_names ys \<and> set (filtro_modalidade f) \<subseteq> set ys \<and>
           matched cmp fs f r = Some True \<longrightarrow>
           matched cmp fs (f\<lparr>filtro_modalidade := ys\<rparr>) r = Some True) \<and>
     (\<forall>ys. filtro_estado f \<noteq> [] \<and> plain_names ys \<and> set (filtro_estado f) \<subseteq> set ys \<and>
           matched cmp fs f r = Some True \<longrightarrow>
           matched cmp fs (f\<lparr>filtro_estado := ys\<rparr>) r = Some True)"
proof -
  note here = matched_eq [OF assms, of cmp r]
  have cat: "matched cmp fs (f\<lparr>filtro_categoria := ys\<rparr>) r = Some True"
    if "filtro_categoria f \<noteq> []" "plain_names ys" "set (filtro_categoria f) \<subseteq> set ys"
      "matched cmp fs f r = Some True" for ys
  proof -
    have "matched cmp fs (f\<lparr>filtro_categoria := ys\<rparr>) r =
        Some ((ys = [] \<or> member_of r ''c.categoria'' ys) \<and>
              (filtro_modalidade f = [] \<or> member_of r ''m.modalidade'' (filtro_modalidade f)) \<and>
              (filtro_estado f = [] \<or> member_of r ''mu.uf'' (filtro_estado f)) \<and>
              list_all (cmp r) (date_atoms f @ value_atoms fs f))"
      using matched_eq [of "f\<lparr>filtro_categoria := ys\<rparr>" fs cmp r] assms that(2)
      by (simp add: atoms_update)
    moreover have "member_of r ''c.categoria'' ys"
      using here that member_of_mono [of r "''c.categoria''" "filtro_categoria f" ys] by simp
    ultimately show ?thesis
      using here that(4) by simp
  qed
  have mod: "matched cmp fs (f\<lparr>filtro_modalidade := ys\<rparr>) r = Some True"
    if "filtro_modalidade f \<noteq> []" "plain_names ys" "set (filtro_modalidade f) \<subseteq> set ys"
      "matched cmp fs f r = Some True" for ys
  proof -
    have "matched cmp fs (f\<lparr>filtro_modalidade := ys\<rparr>) r =
        Some ((filtro_categoria f = [] \<or> member_of r ''c.categoria'' (filtro_categoria f)) \<and>
              (ys = [] \<or> member_of r ''m.modalidade'' ys) \<and>
              (filtro_estado f = [] \<or> member_of r ''mu.uf'' (filtro_estado f)) \<and>
              list_all (cmp r) (date_atoms f @ value_atoms fs f))"
      using matched_eq [of "f\<lparr>filtro_modalidade := ys\<rparr>" fs cmp r] assms that(2)
      by (simp add: atoms_update)
    moreover have "member_of r ''m.modalidade'' ys"
      using here that member_of_mono [of r "''m.modalidade''" "filtro_modalidade f" ys] by simp
    ultimately show ?thesis
      using here that(4) by simp
  qed
  have uf: "matched cmp fs (f\<lparr>filtro_estado := ys\<rparr>) r = Some True"
    if "filtro_estado f \<noteq> []" "plain_names ys" "set (filtro_estado f) \<subseteq> set ys"
      "matched cmp fs f r = Some True" for ys
  proof -
    have "matched cmp fs (f\<lparr>filtro_estado := ys\<rparr>) r =
        Some ((filtro_categoria f = [] \<or> member_of r ''c.categoria'' (filtro_categoria f)) \<and>
              (filtro_modalidade f = [] \<or> member_of r ''m.modalidade'' (filtro_modalidade f)) \<and>
              (ys = [] \<or> member_of r ''mu.uf'' ys) \<and>
              list_all (cmp r) (date_atoms f @ value_atoms fs f))"
      using matched_eq [of "f\<lparr>filtro_estado := ys\<rparr>" fs cmp r] assms that(2)
      by (simp add: atoms_update)
    moreover have "member_of r ''mu.uf'' ys"
      using here that member_of_mono [of r "''mu.uf''" "filtro_estado f" ys] by simp
    ultimately show ?thesis
      using here that(4) by simp
  qed
  show ?thesis
    using here cat mod uf by blast
qed

text \<open>
  Three lists of plain names: a row is matched when its three values are selected, not
  matched when its state is not, and still matched when one more category is selected.
\<close>

theorem membership_filters_witness:
  "matched (\<lambda>r a. True) (\<lambda>x. ''500.0'')
     (no_filters\<lparr>filtro_categoria := [''Base'', ''Nacional''], filtro_modalidade := [''Judo''],
        filtro_estado := [''SP'', ''RJ'']\<rparr>)
     [''c.categoria'' \<mapsto> ''Nacional'', ''m.modalidade'' \<mapsto> ''Judo'', ''mu.uf'' \<mapsto> ''RJ'']
     = Some True \<and>
   matched (\<lambda>r a. True) (\<lambda>x. ''500.0'')
     (no_filters\<lparr>filtro_categoria := [''Base'', ''Nacional''], filtro_modalidade := [''Judo''],
        filtro_estado := [''SP'', ''RJ'']\<rparr>)
     [''c.categoria'' \<mapsto> ''Nacional'', ''m.modalidade'' \<mapsto> ''Judo'', ''mu.uf'' \<mapsto> ''MG'']
     = Some False \<and>
   matched (\<lambda>r a. True) (\<lambda>x. ''500.0'')
     (no_filters\<lparr>filtro_categoria := [''Base'', ''Nacional''], filtro_modalidade := [''Judo''],
        filtro_estado := [''SP'', ''RJ''],
        filtro_categoria := [''Base'', ''Nacional'', ''Internacional'']\<rparr>)
     [''c.categoria'' \<mapsto> ''Nacional'', ''m.modalidade'' \<mapsto> ''Judo'', ''mu.uf'' \<mapsto> ''RJ'']
     = Some True"
proof -
  let ?f = "no_filters\<lparr>filtro_categoria := [''Base'', ''Nacional''],
      filtro_modalidade := [''Judo''], filtro_estado := [''SP'', ''RJ'']\<rparr>"
  let ?r = "[''c.categoria'' \<mapsto> ''Nacional'', ''m.modalidade'' \<mapsto> ''Judo'', ''mu.uf'' \<mapsto> ''RJ'']"
  let ?r' = "[''c.categoria'' \<mapsto> ''Nacional'', ''m.modalidade'' \<mapsto> ''Judo'', ''mu.uf'' \<mapsto> ''MG'']"
  have lists: "filtro_categoria ?f = [''Base'', ''Nacional'']"
    "filtro_modalidade ?f = [''Judo'']" "filtro_estado ?f = [''SP'', ''RJ'']"
    by (simp_all add: no_filters_def)
  have qf: "plain_names (filtro_categoria ?f)" "plain_names (filtro_modalidade ?f)"
    "plain_names (filtro_estado ?f)" "plain_names [''Base'', ''Nacional'', ''Internacional'']"
    by (simp_all add: lists plain_names_def plain_def apostrophe_def nul_def)
  have atoms: "date_atoms ?f = []" "value_atoms (\<lambda>x. ''500.0'') ?f = []"
    by (simp_all add: no_filters_def date_atoms_def value_atoms_def)
  note inst = membership_filters [OF qf(1-3) sample_number, of "\<lambda>r a. True"]
  have m1: "matched (\<lambda>r a. True) (\<lambda>x. ''500.0'') ?f ?r = Some True"
    using inst [of ?r] by (simp add: lists atoms member_of_def)
  have m2: "matched (\<lambda>r a. True) (\<lambda>x. ''500.0'') ?f ?r' = Some False"
    using inst [of ?r'] by (simp add: lists atoms member_of_def)
  have "\<forall>ys. filtro_categoria ?f \<noteq> [] \<and> plain_names ys \<and> set (filtro_categoria ?f) \<subseteq> set ys \<and>
           matched (\<lambda>r a. True) (\<lambda>x. ''500.0'') ?f ?r = Some True \<longrightarrow>
           matched (\<lambda>r a. True) (\<lambda>x. ''500.0'') (?f\<lparr>filtro_categoria := ys\<rparr>) ?r = Some True"
    using inst [of ?r] by blast
  then have "matched (\<lambda>r a. True) (\<lambda>x. ''500.0'')
      (?f\<lparr>filtro_categoria := [''Base'', ''Nacional'', ''Internacional'']\<rparr>) ?r = Some True"
    using m1 qf(4) by (simp add: lists)
  then show ?thesis
    using m1 m2 by simp
qed

text \<open>
  The claim as first stated covers every non-empty set. With the single category
  \<^verbatim>\<open>a', 'b\<close> the predicate is \<^verbatim>\<open>c.categoria IN ('a', 'b')\<close>: the row of category \<^verbatim>\<open>b\<close> is
  matched although \<^verbatim>\<open>b\<close> was not selected. And a row of category \<^verbatim>\<open>a\<close> and modality
  \<^verbatim>\<open>Remo\<close>, matched when \<^verbatim>\<open>a\<close> alone is selected, is lost when a second category is added
  whose name closes the list and goes on with a condition on the modality.
\<close>

theorem membership_filters_counterexample:
  "matched (\<lambda>r a. True) (\<lambda>x. ''0.0'') (no_filters\<lparr>filtro_categoria := [''a', 'b'']\<rparr>)
     [''c.categoria'' \<mapsto> ''b''] = Some True \<and>
   ''b'' \<notin> set (filtro_categoria (no_filters\<lparr>filtro_categoria := [''a', 'b'']\<rparr>)) \<and>
   matched (\<lambda>r a. True) (\<lambda>x. ''0.0'') (no_filters\<lparr>filtro_categoria := [''a'']\<rparr>)
     [''c.categoria'' \<mapsto> ''a'', ''m.modalidade'' \<mapsto> ''Remo''] = Some True \<and>
   matched (\<lambda>r a. True) (\<lambda>x. ''0.0'')
     (no_filters\<lparr>filtro_categoria := [''a'', ''b') AND m.modalidade IN ('Judo'']\<rparr>)
     [''c.categoria'' \<mapsto> ''a'', ''m.modalidade'' \<mapsto> ''Remo''] = Some False"
  by (simp add: matched_def predicate_matches_def read_predicate_def build_where_clause_def
      build_conditions_def no_filters_def known_column_def word_char_def member_of_def
      apostrophe_def nul_def)

text \<open>
  C10. \<open>build_where_clause\<close> emits the conditions of the enabled fields in one fixed
  order: categories, modalities, states, date lower bound, date upper bound, value lower
  bound, value upper bound. The places of the emitted conditions, read off their texts,
  are exactly the enabled places in increasing order, each once; the predicate returned
  is these conditions joined by \<^verbatim>\<open>AND\<close>, and there is none when no place is enabled. The
  builder reads nothing but the filter state (and writes floats as Python does), so it is
  a function of it: equal filter states give the same string.
\<close>

theorem fixed_condition_order:
  "map condition_rank (build_conditions fs f) = filter (place_enabled f) [0, 1, 2, 3, 4, 5, 6] \<and>
   sorted_wrt (<) (map condition_rank (build_conditions fs f)) \<and>
   build_where_clause fs f =
     (if filter (place_enabled f) [0, 1, 2, 3, 4, 5, 6] = [] then None
      else Some (join '' AND '' (build_conditions fs f)))"
proof -
  have ranks: "map condition_rank (build_conditions fs f) =
      filter (place_enabled f) [0, 1, 2, 3, 4, 5, 6]"
    by (rule rank_places)
  have "sorted_wrt (<) (filter (place_enabled f) [0, 1, 2, 3, 4, 5, 6])"
    by (rule sorted_wrt_filter) simp
  moreover have "(build_conditions fs f = []) =
      (filter (place_enabled f) [0, 1, 2, 3, 4, 5, 6] = [])"
    using ranks by (metis map_is_Nil_conv)
  ultimately show ?thesis
    using ranks by (simp add: build_where_clause_def)
qed

text \<open>All seven places enabled, and three of them.\<close>

theorem fixed_condition_order_witness:
  "map condition_rank (build_conditions (\<lambda>x. ''500.0'')
      \<lparr>filtro_categoria = [''Base''], filtro_modalidade = [''Judo''], filtro_estado = [''SP''],
       use_date_filter = True, filtro_data_inicio = Some \<lparr>year = 2021, month = 3, day = 9\<rparr>,
       filtro_data_fim = Some \<lparr>year = 2022, month = 12, day = 31\<rparr>,
       use_value_filter = True, filtro_valor_min = 500, filtro_valor_max = 500\<rparr>)
     = [0, 1, 2, 3, 4, 5, 6] \<and>
   build_where_clause (\<lambda>x. ''500.0'')
      \<lparr>filtro_categoria = [''Base''], filtro_modalidade = [''Judo''], filtro_estado = [''SP''],
       use_date_filter = True, filtro_data_inicio = Some \<lparr>year = 2021, month = 3, day = 9\<rparr>,
       filtro_data_fim = Some \<lparr>year = 2022, month = 12, day = 31\<rparr>,
       use_value_filter = True, filtro_valor_min = 500, filtro_valor_max = 500\<rparr>
     = Some (''c.categoria IN ('Base') AND m.modalidade IN ('Judo') AND mu.uf IN ('SP') AND '' @
             ''p.data_pagamento >= '2021-03-09' AND p.data_pagamento <= '2022-12-31' AND '' @
             ''p.valor_pago >= 500.0 AND p.valor_pago <= 500.0'') \<and>
   map condition_rank (build_conditions (\<lambda>x. ''500.0'')
      (no_filters\<lparr>filtro_modalidade := [''Judo''], use_date_filter := True,
         filtro_data_fim := Some \<lparr>year = 2022, month = 12, day = 31\<rparr>,
         use_value_filter := True, filtro_valor_min := 500\<rparr>))
     = [1, 4, 5]"
proof -
  let ?f = "\<lparr>filtro_categoria = [''Base''], filtro_modalidade = [''Judo''], filtro_estado = [''SP''],
       use_date_filter = True, filtro_data_inicio = Some \<lparr>year = 2021, month = 3, day = 9\<rparr>,
       filtro_data_fim = Some \<lparr>year = 2022, month = 12, day = 31\<rparr>,
       use_value_filter = True, filtro_valor_min = 500, filtro_valor_max = 500\<rparr>"
  let ?g = "no_filters\<lparr>filtro_modalidade := [''Judo''], use_date_filter := True,
         filtro_data_fim := Some \<lparr>year = 2022, month = 12, day = 31\<rparr>,
         use_value_filter := True, filtro_valor_min := 500\<rparr>"
  have cs: "build_conditions (\<lambda>x. ''500.0'') ?f =
      [''c.categoria IN ('Base')'', ''m.modalidade IN ('Judo')'', ''mu.uf IN ('SP')'',
       ''p.data_pagamento >= '2021-03-09'' @ [apostrophe],
       ''p.data_pagamento <= '2022-12-31'' @ [apostrophe],
       ''p.valor_pago >= 500.0'', ''p.valor_pago <= 500.0'']"
    by (simp add: build_conditions_def date_str_def digit_def apostrophe_def)
  have pf: "filter (place_enabled ?f) [0, 1, 2, 3, 4, 5, 6] = [0, 1, 2, 3, 4, 5, 6]"
    and pg: "filter (place_enabled ?g) [0, 1, 2, 3, 4, 5, 6] = [1, 4, 5]"
    by (simp_all add: place_enabled_def no_filters_def)
  have r: "map condition_rank (build_conditions (\<lambda>x. ''500.0'') ?f) = [0, 1, 2, 3, 4, 5, 6]"
    and p: "build_where_clause (\<lambda>x. ''500.0'') ?f =
      Some (join '' AND '' (build_conditions (\<lambda>x. ''500.0'') ?f))"
    using fixed_condition_order [of "\<lambda>x. ''500.0''" ?f, unfolded pf] by simp_all
  have g: "map condition_rank (build_conditions (\<lambda>x. ''500.0'') ?g) = [1, 4, 5]"
    using fixed_condition_order [of "\<lambda>x. ''500.0''" ?g, unfolded pg] by simp
  have "build_where_clause (\<lambda>x. ''500.0'') ?f =
      Some (''c.categoria IN ('Base') AND m.modalidade IN ('Judo') AND mu.uf IN ('SP') AND '' @
            ''p.data_pagamento >= '2021-03-09' AND p.data_pagamento <= '2022-12-31' AND '' @
            ''p.valor_pago >= 500.0 AND p.valor_pago <= 500.0'')"
    unfolding p cs by (simp add: apostrophe_def)
  then show ?thesis
    using r g by blast
qed

end
